theory Spec2Isabelle
  imports Complex_Main "HOL-Library.Sublist"
begin

section \<open>JavaScript strings and numbers\<close>

text \<open>
  The development verifies \<^verbatim>\<open>src/opa.ts\<close>. A JavaScript string is modelled as a
  \<^typ>\<open>string\<close>, one \<^typ>\<open>char\<close> per UTF-16 code unit; the strings covered are those whose code
  units are all below 256. A JavaScript number is an IEEE double: not-a-number, one of the
  two infinities, or a finite value (both zeros are the real \<open>0\<close>; they compare equal).
\<close>

datatype jsnum = NaN | NegInf | Fin real | PosInf

text \<open>The numeric branch of the abstract relational comparison \<^verbatim>\<open>x < y\<close>:
  \<open>None\<close> is the result \<^verbatim>\<open>undefined\<close> that a not-a-number operand gives.\<close>

fun num_less :: "jsnum \<Rightarrow> jsnum \<Rightarrow> bool option" where
  "num_less NaN y = None"
| "num_less x NaN = None"
| "num_less PosInf y = Some False"
| "num_less x PosInf = Some True"
| "num_less x NegInf = Some False"
| "num_less NegInf y = Some True"
| "num_less (Fin x) (Fin y) = Some (x < y)"

text \<open>The string branch: the first code unit where the two strings differ decides,
  and a proper prefix is smaller.\<close>

fun str_less :: "string \<Rightarrow> string \<Rightarrow> bool" where
  "str_less [] [] = False"
| "str_less [] (d # ys) = True"
| "str_less (c # xs) [] = False"
| "str_less (c # xs) (d # ys) =
     (if c = d then str_less xs ys else (of_char c :: nat) < of_char d)"

definition isDigit :: "char \<Rightarrow> bool" where
  "isDigit c = (48 \<le> (of_char c :: nat) \<and> (of_char c :: nat) \<le> 57)"

definition isLetter :: "char \<Rightarrow> bool" where
  "isLetter c =
     ((65 \<le> (of_char c :: nat) \<and> (of_char c :: nat) \<le> 90) \<or>
      (97 \<le> (of_char c :: nat) \<and> (of_char c :: nat) \<le> 122))"

text \<open>The value of a string of decimal digits, most significant digit first.\<close>

definition decimalValue :: "string \<Rightarrow> int" where
  "decimalValue s = foldl (\<lambda>n c. 10 * n + (of_char c - 48)) 0 s"

text \<open>
  \<^verbatim>\<open>Number(s)\<close> on a string. Three cases are written out from ECMAScript's
  \<^verbatim>\<open>StringToNumber\<close>: the empty string is \<open>0\<close>; a string of decimal digits below \<open>2^53\<close> is
  that integer, exactly; a string that starts with a letter other than \<^verbatim>\<open>I\<close> is no numeric
  literal (a literal starts with white space, a sign, a digit, a dot or \<^verbatim>\<open>Infinity\<close>) and
  gives not-a-number. Every other string (white space, signs, fractions, exponents, hex,
  rounding of long literals) is left to the parameter \<open>ext\<close>, about which nothing is assumed.
\<close>

definition Number :: "(string \<Rightarrow> jsnum) \<Rightarrow> string \<Rightarrow> jsnum" where
  "Number ext s =
     (if s = [] then Fin 0
      else if list_all isDigit s \<and> decimalValue s < 2 ^ 53 then Fin (of_int (decimalValue s))
      else if isLetter (hd s) \<and> hd s \<noteq> CHR ''I'' then NaN
      else ext s)"

subsection \<open>\<^verbatim>\<open>String.prototype.split\<close>\<close>

text \<open>
  \<^verbatim>\<open>S.split(sep, limit)\<close> for a string separator. \<open>splitFrom sep cur rest\<close> scans \<open>rest\<close>
  from the left; \<open>cur\<close> is the piece collected since the last match. Every occurrence of
  the separator ends a piece (matches do not overlap), and the text after the last
  occurrence is the last piece. The limit then keeps the first \<open>limit\<close> pieces and drops
  the others: the remainder is not put into the last piece. An empty separator cuts the
  string into its code units.
\<close>

function splitFrom :: "string \<Rightarrow> string \<Rightarrow> string \<Rightarrow> string list" where
  "splitFrom sep cur [] = [cur]"
| "splitFrom sep cur (c # cs) =
     (if sep \<noteq> [] \<and> prefix sep (c # cs)
      then cur # splitFrom sep [] (drop (length sep) (c # cs))
      else splitFrom sep (cur @ [c]) cs)"
  by pat_completeness auto
termination
  by (relation "measure (\<lambda>(sep, cur, rest). length rest)") auto

definition split :: "string \<Rightarrow> nat option \<Rightarrow> string \<Rightarrow> string list" where
  "split sep limit s =
     (let pieces = (if sep = [] then map (\<lambda>c. [c]) s else splitFrom sep [] s)
      in case limit of None \<Rightarrow> pieces | Some n \<Rightarrow> take n pieces)"

section \<open>Version parsing and comparison\<close>

text \<open>The elements of the array that \<^verbatim>\<open>parseOPAVersion\<close> returns (\<^verbatim>\<open>any[]\<close>): numbers
  and strings.\<close>

datatype vfield = VNum jsnum | VStr string

text \<open>
  \<^verbatim>\<open>
  function parseOPAVersion(s: string): any[] {
      const parts = s.split('.', 3);
      if (parts.length < 3) { return []; }
      const major = Number(parts[0]);
      const minor = Number(parts[1]);
      const pointParts = parts[2].split('-', 2);
      const point = Number(pointParts[0]);
      let patch = '';
      if (pointParts.length >= 2) { patch = pointParts[1]; }
      return [major, minor, point, patch];
  }
  \<close>
\<close>

definition parseOPAVersion :: "(string \<Rightarrow> jsnum) \<Rightarrow> string \<Rightarrow> vfield list" where
  "parseOPAVersion ext s =
     (let parts = split ''.'' (Some 3) s in
      if length parts < 3 then []
      else
        let major = Number ext (parts ! 0);
            minor = Number ext (parts ! 1);
            pointParts = split ''-'' (Some 2) (parts ! 2);
            point = Number ext (pointParts ! 0);
            patch = (if length pointParts \<ge> 2 then pointParts ! 1 else '''')
        in [VNum major, VNum minor, VNum point, VStr patch])"

text \<open>
  The operators of the comparison on array elements. \<^verbatim>\<open>x < y\<close> compares two strings by
  code units and otherwise converts both operands to numbers; \<^verbatim>\<open>x > y\<close> is \<^verbatim>\<open>y < x\<close> being
  true; \<^verbatim>\<open>x >= y\<close> is \<^verbatim>\<open>x < y\<close> being false (not true and not undefined); \<^verbatim>\<open>===\<close> never
  converts, and not-a-number is not equal to itself.
\<close>

fun ToNumber :: "(string \<Rightarrow> jsnum) \<Rightarrow> vfield \<Rightarrow> jsnum" where
  "ToNumber ext (VNum n) = n"
| "ToNumber ext (VStr s) = Number ext s"

fun isLessThan :: "(string \<Rightarrow> jsnum) \<Rightarrow> vfield \<Rightarrow> vfield \<Rightarrow> bool option" where
  "isLessThan ext (VStr s) (VStr t) = Some (str_less s t)"
| "isLessThan ext x y = num_less (ToNumber ext x) (ToNumber ext y)"

definition js_gt :: "(string \<Rightarrow> jsnum) \<Rightarrow> vfield \<Rightarrow> vfield \<Rightarrow> bool" where
  "js_gt ext x y = (isLessThan ext y x = Some True)"

definition js_ge :: "(string \<Rightarrow> jsnum) \<Rightarrow> vfield \<Rightarrow> vfield \<Rightarrow> bool" where
  "js_ge ext x y = (isLessThan ext x y = Some False)"

fun strictEq :: "vfield \<Rightarrow> vfield \<Rightarrow> bool" where
  "strictEq (VNum x) (VNum y) = (x = y \<and> x \<noteq> NaN)"
| "strictEq (VStr s) (VStr t) = (s = t)"
| "strictEq x y = False"

text \<open>
  \<^verbatim>\<open>
  function opaVersionSameOrNewerThan(a: string, b: string): boolean {
      const aVersion = parseOPAVersion(a);
      const bVersion = parseOPAVersion(b);
      if (aVersion.length !== 4 || bVersion.length !== 4) { return true; }
      for (let i = 0; i < 3; i++) {
          if (aVersion[i] > bVersion[i]) { return true; }
          else if (bVersion[i] > aVersion[i]) { return false; }
      }
      if (aVersion[3] === '' && bVersion[3] !== '') { return true; }
      else if (aVersion[3] !== '' && bVersion[3] === '') { return false; }
      return aVersion[3] >= bVersion[3];
  }
  \<close>
  The \<^verbatim>\<open>for\<close> loop is \<open>compareFields\<close>, started at \<open>i = 0\<close>: \<open>Some r\<close> when the loop
  returns \<open>r\<close>, \<open>None\<close> when it runs to its end.
\<close>

function compareFields ::
  "(string \<Rightarrow> jsnum) \<Rightarrow> vfield list \<Rightarrow> vfield list \<Rightarrow> nat \<Rightarrow> bool option" where
  "compareFields ext aVersion bVersion i =
     (if i < 3 then
        (if js_gt ext (aVersion ! i) (bVersion ! i) then Some True
         else if js_gt ext (bVersion ! i) (aVersion ! i) then Some False
         else compareFields ext aVersion bVersion (i + 1))
      else None)"
  by pat_completeness auto
termination
  by (relation "measure (\<lambda>(ext, aVersion, bVersion, i). 3 - i)") auto

definition opaVersionSameOrNewerThan :: "(string \<Rightarrow> jsnum) \<Rightarrow> string \<Rightarrow> string \<Rightarrow> bool" where
  "opaVersionSameOrNewerThan ext a b =
     (let aVersion = parseOPAVersion ext a;
          bVersion = parseOPAVersion ext b
      in if length aVersion \<noteq> 4 \<or> length bVersion \<noteq> 4 then True
         else case compareFields ext aVersion bVersion 0 of
           Some r \<Rightarrow> r
         | None \<Rightarrow>
             if strictEq (aVersion ! 3) (VStr '''') \<and> \<not> strictEq (bVersion ! 3) (VStr '''') then True
             else if \<not> strictEq (aVersion ! 3) (VStr '''') \<and> strictEq (bVersion ! 3) (VStr '''') then False
             else js_ge ext (aVersion ! 3) (bVersion ! 3))"

text \<open>``\<open>a\<close>'s field greater'' on two numbers: \<^verbatim>\<open>x > y\<close>.\<close>

definition num_gt :: "jsnum \<Rightarrow> jsnum \<Rightarrow> bool" where
  "num_gt x y = (num_less y x = Some True)"

text \<open>An instance of the parameter of \<open>Number\<close> for closed examples; the examples take
  inputs on which the parameter is never consulted.\<close>

definition noExt :: "string \<Rightarrow> jsnum" where
  "noExt s = NaN"

section \<open>The installed version\<close>

text \<open>\<^verbatim>\<open>String.prototype.trim\<close>: white space and line terminators are removed at both
  ends. Below 256 these are the code units 9 to 13, 32 and 160.\<close>

definition isWhiteSpace :: "char \<Rightarrow> bool" where
  "isWhiteSpace c =
     ((9 \<le> (of_char c :: nat) \<and> (of_char c :: nat) \<le> 13) \<or>
      (of_char c :: nat) = 32 \<or> (of_char c :: nat) = 160)"

definition trim :: "string \<Rightarrow> string" where
  "trim s = rev (dropWhile isWhiteSpace (rev (dropWhile isWhiteSpace s)))"

text \<open>
  What \<^verbatim>\<open>cp.spawnSync('opa', ['version'])\<close> returns: its \<^verbatim>\<open>status\<close> (\<open>None\<close> is
  \<^verbatim>\<open>null\<close>: the process was killed by a signal or could not be started) and its \<^verbatim>\<open>stdout\<close>,
  decoded.
\<close>

record spawnSyncResult =
  spawn_status :: "int option"
  spawn_stdout :: string

text \<open>
  \<^verbatim>\<open>
  function getOPAVersionString(): string {
      const result = cp.spawnSync('opa', ['version']);
      if (result.status !== 0) { return ''; }
      const lines = result.stdout.toString().split('\n');
      for (let i = 0; i < lines.length; i++) {
          const parts = lines[i].trim().split(': ', 2);
          if (parts.length < 2) { continue; }
          if (parts[0] === 'Version') { return parts[1]; }
      }
      return '';
  }
  \<close>
  The loop is \<open>scanLines\<close>, started at \<open>i = 0\<close>.
\<close>

function scanLines :: "string list \<Rightarrow> nat \<Rightarrow> string" where
  "scanLines lines i =
     (if i < length lines then
        (let parts = split '': '' (Some 2) (trim (lines ! i)) in
         if length parts < 2 then scanLines lines (i + 1)
         else if parts ! 0 = ''Version'' then parts ! 1
         else scanLines lines (i + 1))
      else '''')"
  by pat_completeness auto
termination
  by (relation "measure (\<lambda>(lines, i). length lines - i)") auto

definition getOPAVersionString :: "spawnSyncResult \<Rightarrow> string" where
  "getOPAVersionString result =
     (if spawn_status result \<noteq> Some 0 then ''''
      else scanLines (split [CHR 0x0A] None (spawn_stdout result)) 0)"

section \<open>References as strings\<close>

text \<open>
  The values of a parsed JSON document. The list of an object holds its properties in
  enumeration order.
\<close>

datatype jsval =
    Null
  | Bool bool
  | Num jsnum
  | Str string
  | Arr "jsval list"
  | Obj "(string \<times> jsval) list"

datatype js_error = TypeError | SyntaxError

text \<open>\<^verbatim>\<open>Array.prototype.join\<close> on strings.\<close>

fun join :: "string \<Rightarrow> string list \<Rightarrow> string" where
  "join sep [] = []"
| "join sep [x] = x"
| "join sep (x # y # ys) = x @ sep @ join sep (y # ys)"

text \<open>
  \<^verbatim>\<open>Number::toString\<close> on a finite number prints the shortest digits that read back as
  the same double. For an integer below \<open>2^53\<close> in absolute value these are its decimal
  digits, with a minus sign when negative: every integer of that range is a double of
  its own. From \<open>2^53\<close> on the shortest digits are padded with zeros and are not the
  digits of the integer (\<open>2^60\<close> prints as \<^verbatim>\<open>1152921504606847000\<close>); the printing of these
  integers, and of every finite double that is not an integer, is the parameter \<open>nts\<close>,
  about which nothing is assumed.
\<close>

function digits :: "int \<Rightarrow> string" where
  "digits n =
     (if n < 10 then [''0123456789'' ! nat n]
      else digits (n div 10) @ [''0123456789'' ! nat (n mod 10)])"
  by pat_completeness auto
termination
  by (relation "measure (\<lambda>n. nat n)") auto

definition finiteToString :: "(real \<Rightarrow> string) \<Rightarrow> real \<Rightarrow> string" where
  "finiteToString nts x =
     (if of_int \<lfloor>x\<rfloor> = x \<and> \<bar>x\<bar> < 2 ^ 53
      then (if x < 0 then ''-'' @ digits (- \<lfloor>x\<rfloor>) else digits \<lfloor>x\<rfloor>)
      else nts x)"

fun numberToString :: "(real \<Rightarrow> string) \<Rightarrow> jsnum \<Rightarrow> string" where
  "numberToString nts NaN = ''NaN''"
| "numberToString nts PosInf = ''Infinity''"
| "numberToString nts NegInf = ''-Infinity''"
| "numberToString nts (Fin x) = finiteToString nts x"

text \<open>
  \<^verbatim>\<open>QuoteJSONString\<close>: the quotation mark, the backslash and the control characters are
  escaped, every other code unit (below 256, so no surrogate) is copied.
\<close>

definition hexDigit :: "nat \<Rightarrow> char" where
  "hexDigit n = ''0123456789abcdef'' ! n"

definition quoteChar :: "char \<Rightarrow> string" where
  "quoteChar c =
     (let n = (of_char c :: nat) in
      if n = 8 then [CHR 0x5C, CHR ''b'']
      else if n = 9 then [CHR 0x5C, CHR ''t'']
      else if n = 10 then [CHR 0x5C, CHR ''n'']
      else if n = 12 then [CHR 0x5C, CHR ''f'']
      else if n = 13 then [CHR 0x5C, CHR ''r'']
      else if n = 34 then [CHR 0x5C, CHR 0x22]
      else if n = 92 then [CHR 0x5C, CHR 0x5C]
      else if n < 32 then [CHR 0x5C, CHR ''u'', CHR ''0'', CHR ''0'', hexDigit (n div 16), hexDigit (n mod 16)]
      else [c])"

definition quoteJSONString :: "string \<Rightarrow> string" where
  "quoteJSONString s = [CHR 0x22] @ concat (map quoteChar s) @ [CHR 0x22]"

text \<open>\<^verbatim>\<open>JSON.stringify(v)\<close> with no replacer and no indentation; a number that is not
  finite is printed as \<^verbatim>\<open>null\<close>.\<close>

fun JSON_stringify :: "(real \<Rightarrow> string) \<Rightarrow> jsval \<Rightarrow> string" where
  "JSON_stringify nts Null = ''null''"
| "JSON_stringify nts (Bool b) = (if b then ''true'' else ''false'')"
| "JSON_stringify nts (Num (Fin x)) = finiteToString nts x"
| "JSON_stringify nts (Num n) = ''null''"
| "JSON_stringify nts (Str s) = quoteJSONString s"
| "JSON_stringify nts (Arr vs) = ''['' @ join '','' (map (JSON_stringify nts) vs) @ '']''"
| "JSON_stringify nts (Obj kvs) =
     ''{'' @ join '','' (map (\<lambda>kv. quoteJSONString (fst kv) @ '':'' @ JSON_stringify nts (snd kv)) kvs) @ ''}''"

text \<open>\<^verbatim>\<open>ToString\<close>, as string concatenation and \<^verbatim>\<open>RegExp.prototype.test\<close> apply it to
  their operands: an array joins its elements with commas (a \<^verbatim>\<open>null\<close> element is the
  empty string), an object is \<^verbatim>\<open>[object Object]\<close>.\<close>

fun ToString :: "(real \<Rightarrow> string) \<Rightarrow> jsval \<Rightarrow> string" where
  "ToString nts Null = ''null''"
| "ToString nts (Bool b) = (if b then ''true'' else ''false'')"
| "ToString nts (Num n) = numberToString nts n"
| "ToString nts (Str s) = s"
| "ToString nts (Arr vs) = join '','' (map (\<lambda>v. if v = Null then '''' else ToString nts v) vs)"
| "ToString nts (Obj kvs) = ''[object Object]''"

text \<open>\<^verbatim>\<open>regoVarPattern = new RegExp('^[a-zA-Z_][a-zA-Z0-9_]*$')\<close> and its \<^verbatim>\<open>test\<close>: the
  pattern has no flags, so it is anchored at both ends of the string.\<close>

definition regoVarPattern_test :: "string \<Rightarrow> bool" where
  "regoVarPattern_test s =
     (case s of
        [] \<Rightarrow> False
      | c # cs \<Rightarrow> (isLetter c \<or> c = CHR ''_'') \<and>
                 list_all (\<lambda>d. isLetter d \<or> isDigit d \<or> d = CHR ''_'') cs)"

text \<open>
  A segment of a reference: an object with a \<^verbatim>\<open>value\<close> and, unless it is missing
  (\<open>None\<close>), a string \<^verbatim>\<open>type\<close>.
  \<^verbatim>\<open>
  export function refToString(ref: any[]): string {
      let result = ref[0].value;
      for (let i = 1; i < ref.length; i++) {
          if (ref[i].type === "string") {
              if (regoVarPattern.test(ref[i].value)) {
                  result += '.' + ref[i].value;
                  continue;
              }
          }
          result += '[' + JSON.stringify(ref[i].value) + ']';
      }
      return result;
  }
  \<close>
  \<^verbatim>\<open>result += t\<close> with a string \<open>t\<close> converts \<open>result\<close> to a string and appends \<open>t\<close>.
  Reading \<^verbatim>\<open>ref[0].value\<close> of an empty array throws a \<^verbatim>\<open>TypeError\<close>.
\<close>

record segment =
  type :: "string option"
  "value" :: jsval

definition plusAssign :: "(real \<Rightarrow> string) \<Rightarrow> jsval \<Rightarrow> string \<Rightarrow> jsval" where
  "plusAssign nts result t = Str (ToString nts result @ t)"

function refToString_loop ::
  "(real \<Rightarrow> string) \<Rightarrow> segment list \<Rightarrow> nat \<Rightarrow> jsval \<Rightarrow> jsval" where
  "refToString_loop nts ref i result =
     (if i < length ref then
        (if type (ref ! i) = Some ''string'' \<and>
            regoVarPattern_test (ToString nts (value (ref ! i)))
         then refToString_loop nts ref (i + 1)
                (plusAssign nts result (''.'' @ ToString nts (value (ref ! i))))
         else refToString_loop nts ref (i + 1)
                (plusAssign nts result (''['' @ JSON_stringify nts (value (ref ! i)) @ '']'')))
      else result)"
  by pat_completeness auto
termination
  by (relation "measure (\<lambda>(nts, ref, i, result). length ref - i)") auto

definition refToString :: "(real \<Rightarrow> string) \<Rightarrow> segment list \<Rightarrow> js_error + jsval" where
  "refToString nts ref =
     (if ref = [] then Inl TypeError
      else Inr (refToString_loop nts ref 1 (value (ref ! 0))))"

text \<open>An instance of the parameter of \<open>finiteToString\<close> for closed examples.\<close>

definition noNts :: "real \<Rightarrow> string" where
  "noNts x = ''''"

section \<open>Running the binary\<close>

text \<open>
  What \<^verbatim>\<open>runWithStatus\<close> reads from its surroundings: the setting \<^verbatim>\<open>opa.path\<close> (\<open>None\<close>
  when it is \<^verbatim>\<open>undefined\<close> or \<^verbatim>\<open>null\<close>), \<^verbatim>\<open>commandExistsSync\<close>, \<^verbatim>\<open>existsSync\<close>, and the
  child process: for a path, arguments and standard input, the exit code (\<open>None\<close> is
  \<^verbatim>\<open>null\<close>, a process killed by a signal) with the standard error and the standard
  output accumulated when the \<^verbatim>\<open>exit\<close> event is emitted, or \<open>None\<close> when no \<^verbatim>\<open>exit\<close> event
  is ever emitted.
\<close>

record env =
  opaPath :: "string option"
  commandExistsSync :: "string \<Rightarrow> bool"
  existsSync :: "string \<Rightarrow> bool"
  child :: "string \<Rightarrow> string list \<Rightarrow> string \<Rightarrow> (int option \<times> string \<times> string) option"

text \<open>What \<^verbatim>\<open>runWithStatus\<close> does to its surroundings, in order (the calls of
  \<^verbatim>\<open>console.log\<close> are left out).\<close>

datatype effect =
    PromptForInstall
  | Spawn string "string list"
  | StdinWrite string
  | StdinEnd

text \<open>
  \<^verbatim>\<open>
  export function runWithStatus(path, args, stdin, cb) {
      const opaPath = vscode.workspace.getConfiguration('opa').get<string>('path');
      const existsOnPath = commandExistsSync(path);
      const existsInUserSettings = opaPath !== undefined && opaPath !== null && existsSync(opaPath);
      if (!(existsOnPath || existsInUserSettings)) { promptForInstall(); return; }
      if (existsInUserSettings && opaPath !== undefined) { path = opaPath; }
      let proc = cp.spawn(path, args);
      proc.stdin.write(stdin);
      proc.stdin.end();
      let stdout = ""; let stderr = "";
      proc.stdout.on('data', (data) => { stdout += data; });
      proc.stderr.on('data', (data) => { stderr += data; });
      proc.on('exit', (code, signal) => { cb(code, stderr, stdout); });
  }
  \<close>
  The result is the list of effects and what the call of \<open>cb\<close> gave: \<open>None\<close> when \<open>cb\<close>
  is never called, otherwise the value of \<open>cb\<close> or the error it threw.
\<close>

definition runWithStatus ::
  "env \<Rightarrow> string \<Rightarrow> string list \<Rightarrow> string \<Rightarrow>
   (int option \<Rightarrow> string \<Rightarrow> string \<Rightarrow> js_error + 'r) \<Rightarrow> effect list \<times> (js_error + 'r) option" where
  "runWithStatus e path args stdin cb =
     (let existsOnPath = commandExistsSync e path;
          existsInUserSettings = (case opaPath e of None \<Rightarrow> False | Some p \<Rightarrow> existsSync e p)
      in if \<not> (existsOnPath \<or> existsInUserSettings) then ([PromptForInstall], None)
         else
           let path' = (case opaPath e of
                          Some p \<Rightarrow> if existsInUserSettings then p else path
                        | None \<Rightarrow> path)
           in ([Spawn path' args, StdinWrite stdin, StdinEnd],
               map_option (\<lambda>(code, stderr, stdout). cb code stderr stdout)
                 (child e path' args stdin)))"

text \<open>
  \<^verbatim>\<open>
  export function run(path, args, stdin, cb: (error: string, result: any) => void) {
      runWithStatus(path, args, stdin, (code, stderr, stdout) => {
          if (code !== 0) {
              if (stdout !== '') { cb(stdout, ''); } else { cb(stderr, ''); }
          } else {
              cb('', JSON.parse(stdout));
          }
      });
  }
  \<close>
  \<^verbatim>\<open>JSON.parse\<close> is the parameter \<open>JSON_parse\<close>: the document, or the \<^verbatim>\<open>SyntaxError\<close> it
  throws. \<open>run_callback\<close> is the function that \<^verbatim>\<open>run\<close> hands to \<^verbatim>\<open>runWithStatus\<close>.
\<close>

definition run_callback ::
  "(string \<Rightarrow> js_error + jsval) \<Rightarrow> (string \<Rightarrow> jsval \<Rightarrow> js_error + 'r) \<Rightarrow>
   int option \<Rightarrow> string \<Rightarrow> string \<Rightarrow> js_error + 'r" where
  "run_callback JSON_parse cb code stderr stdout =
     (if code \<noteq> Some 0 then
        (if stdout \<noteq> '''' then cb stdout (Str '''') else cb stderr (Str ''''))
      else
        (case JSON_parse stdout of
           Inl err \<Rightarrow> Inl err
         | Inr doc \<Rightarrow> cb '''' doc))"

definition run ::
  "env \<Rightarrow> (string \<Rightarrow> js_error + jsval) \<Rightarrow> string \<Rightarrow> string list \<Rightarrow> string \<Rightarrow>
   (string \<Rightarrow> jsval \<Rightarrow> js_error + 'r) \<Rightarrow> effect list \<times> (js_error + 'r) option" where
  "run e JSON_parse path args stdin cb =
     runWithStatus e path args stdin (run_callback JSON_parse cb)"

text \<open>
  The caller of \<^verbatim>\<open>run\<close> in the source, which reads the two arguments of the callback: an
  error message other than the empty string is a failure, everything else a success.
  \<^verbatim>\<open>
  export function parse(opaPath, path, cb, onerror) {
      run(opaPath, ['parse', path, '--format', 'json'], '', (error: string, result: any) => {
          if (error !== '') {
              onerror(error);
          } else {
              let pkg = getPackage(result);
              let imports = getImports(result);
              cb(pkg, imports);
          }
      });
  }
  \<close>
  \<^verbatim>\<open>getPackage\<close> and \<^verbatim>\<open>getImports\<close> are imported from \<^verbatim>\<open>./util\<close>; they are parameters here,
  and each gives its value or the error it throws.
\<close>

definition parse_callback ::
  "(jsval \<Rightarrow> js_error + 'p) \<Rightarrow> (jsval \<Rightarrow> js_error + 'i) \<Rightarrow>
   ('p \<Rightarrow> 'i \<Rightarrow> js_error + 'r) \<Rightarrow> (string \<Rightarrow> js_error + 'r) \<Rightarrow>
   string \<Rightarrow> jsval \<Rightarrow> js_error + 'r" where
  "parse_callback getPackage getImports cb onerror error result =
     (if error \<noteq> '''' then onerror error
      else
        (case getPackage result of
           Inl err \<Rightarrow> Inl err
         | Inr pkg \<Rightarrow>
             (case getImports result of
                Inl err \<Rightarrow> Inl err
              | Inr imports \<Rightarrow> cb pkg imports)))"

definition parse ::
  "env \<Rightarrow> (string \<Rightarrow> js_error + jsval) \<Rightarrow> (jsval \<Rightarrow> js_error + 'p) \<Rightarrow> (jsval \<Rightarrow> js_error + 'i) \<Rightarrow>
   string \<Rightarrow> string \<Rightarrow> ('p \<Rightarrow> 'i \<Rightarrow> js_error + 'r) \<Rightarrow> (string \<Rightarrow> js_error + 'r) \<Rightarrow>
   effect list \<times> (js_error + 'r) option" where
  "parse e JSON_parse getPackage getImports binary path cb onerror =
     run e JSON_parse binary [''parse'', path, ''--format'', ''json''] ''''
       (parse_callback getPackage getImports cb onerror)"

section \<open>The specification's wording\<close>

text \<open>
  The invocation result of the specification, a success with the decoded value or a
  failure with a message, and the result that the two arguments of the callback of
  \<^verbatim>\<open>run\<close> stand for, read as \<^verbatim>\<open>parse\<close> reads them.
\<close>

datatype invocation = Success jsval | Failure string

definition invocationOf :: "string \<Rightarrow> jsval \<Rightarrow> invocation" where
  "invocationOf error result = (if error \<noteq> '''' then Failure error else Success result)"

text \<open>
  The ordering rule with ``the first field where the two differ decides the result'':
  at the first pair of different fields the result is whether \<open>a\<close>'s is the greater one.
\<close>

fun firstDifferenceDecides :: "(jsnum \<times> jsnum) list \<Rightarrow> bool \<Rightarrow> bool" where
  "firstDifferenceDecides [] r = r"
| "firstDifferenceDecides ((x, y) # fs) r =
     (if x \<noteq> y then (num_less y x = Some True) else firstDifferenceDecides fs r)"

text \<open>
  ``Split on the first occurrence of the separator into at most two pieces'': the text
  before the first occurrence and all of the text after it, or the whole string when
  the separator does not occur.
\<close>

fun splitOnFirst :: "string \<Rightarrow> string \<Rightarrow> string \<Rightarrow> string list" where
  "splitOnFirst sep cur [] = [cur]"
| "splitOnFirst sep cur (c # cs) =
     (if prefix sep (c # cs) then [cur, drop (length sep) (c # cs)]
      else splitOnFirst sep (cur @ [c]) cs)"

text \<open>\<open>Parse\<close> as the specification words it: the third dot-separated piece is split on the
  first \<^verbatim>\<open>-\<close>.\<close>

definition Parse_spec :: "(string \<Rightarrow> jsnum) \<Rightarrow> string \<Rightarrow> vfield list" where
  "Parse_spec ext s =
     (let parts = split ''.'' (Some 3) s in
      if length parts < 3 then []
      else
        let pieces = splitOnFirst ''-'' [] (parts ! 2)
        in [VNum (Number ext (parts ! 0)), VNum (Number ext (parts ! 1)),
            VNum (Number ext (pieces ! 0)),
            VStr (if length pieces \<ge> 2 then pieces ! 1 else '''')])"

text \<open>\<open>GetInstalledVersionString\<close> as the specification words it: every line is trimmed and
  split on the first \<^verbatim>\<open>": "\<close>; the first line with the label \<^verbatim>\<open>Version\<close> gives its second
  part.\<close>

fun versionOfLines_spec :: "string list \<Rightarrow> string" where
  "versionOfLines_spec [] = ''''"
| "versionOfLines_spec (l # ls) =
     (let parts = splitOnFirst '': '' [] (trim l) in
      if length parts = 2 \<and> parts ! 0 = ''Version'' then parts ! 1
      else versionOfLines_spec ls)"

definition GetInstalledVersionString_spec :: "spawnSyncResult \<Rightarrow> string" where
  "GetInstalledVersionString_spec result =
     (if spawn_status result \<noteq> Some 0 then ''''
      else versionOfLines_spec (split [CHR 0x0A] None (spawn_stdout result)))"

text \<open>What a segment after the first contributes, as the specification words it.\<close>

definition segmentText :: "(real \<Rightarrow> string) \<Rightarrow> segment \<Rightarrow> string" where
  "segmentText nts seg =
     (if type seg = Some ''string'' \<and> regoVarPattern_test (ToString nts (value seg))
      then ''.'' @ ToString nts (value seg)
      else ''['' @ JSON_stringify nts (value seg) @ '']'')"

text \<open>
  The ordering rule with ``the first field where one side is greater decides the
  result''. The numeric fields are looked at in order, and a field where one side is
  greater decides; when no field decides, the patch rule does: an empty patch is newer
  than a non-empty one, and otherwise the patches are compared as strings.
\<close>

fun fieldsDecide :: "(jsnum \<times> jsnum) list \<Rightarrow> bool \<Rightarrow> bool" where
  "fieldsDecide [] r = r"
| "fieldsDecide ((x, y) # fs) r =
     (if num_gt x y then True else if num_gt y x then False else fieldsDecide fs r)"

definition patchDecides :: "string \<Rightarrow> string \<Rightarrow> bool" where
  "patchDecides ap bp =
     (if ap = [] \<and> bp \<noteq> [] then True
      else if ap \<noteq> [] \<and> bp = [] then False
      else \<not> str_less ap bp)"

section \<open>Properties of \<open>split\<close>\<close>

lemma splitFrom_not_Nil: "splitFrom sep cur xs \<noteq> []"
  by (induction sep cur xs rule: splitFrom.induct) auto

lemma length_splitOnFirst:
  "length (splitOnFirst sep cur xs) = 1 \<or> length (splitOnFirst sep cur xs) = 2"
  by (induction xs arbitrary: cur) auto

text \<open>The pieces of \<open>split\<close> against a cut at the first occurrence only: the first piece is
  the same, and the other pieces are the pieces of the remainder.\<close>

lemma splitFrom_no_occurrence:
  "sep \<noteq> [] \<Longrightarrow> splitOnFirst sep cur xs = [a] \<Longrightarrow> splitFrom sep cur xs = [a]"
  by (induction xs arbitrary: cur) (auto split: if_splits)

lemma splitFrom_first_occurrence:
  "sep \<noteq> [] \<Longrightarrow> splitOnFirst sep cur xs = [a, r] \<Longrightarrow>
   splitFrom sep cur xs = a # splitFrom sep [] r"
  by (induction xs arbitrary: cur) (auto split: if_splits)

lemma hd_splitFrom:
  assumes "sep \<noteq> []"
  shows "hd (splitFrom sep cur xs) = hd (splitOnFirst sep cur xs)"
proof -
  from length_splitOnFirst [of sep cur xs]
  consider a where "splitOnFirst sep cur xs = [a]"
    | a r where "splitOnFirst sep cur xs = [a, r]"
    by (cases "splitOnFirst sep cur xs" rule: list.exhaust)
       (auto simp: length_Suc_conv)
  then show ?thesis
  proof cases
    case 1
    with splitFrom_no_occurrence [OF assms 1] show ?thesis by simp
  next
    case 2
    with splitFrom_first_occurrence [OF assms 2] show ?thesis by simp
  qed
qed

text \<open>The two pieces that \<^verbatim>\<open>split(sep, 2)\<close> keeps.\<close>

lemma split_2_no_occurrence:
  "sep \<noteq> [] \<Longrightarrow> splitOnFirst sep [] t = [a] \<Longrightarrow> split sep (Some 2) t = [a]"
  by (simp add: split_def splitFrom_no_occurrence)

lemma split_2_first_occurrence:
  assumes "sep \<noteq> []" and "splitOnFirst sep [] t = [a, r]"
  shows "split sep (Some 2) t = [a, hd (splitOnFirst sep [] r)]"
proof -
  obtain x xs where x: "splitFrom sep [] r = x # xs"
    using splitFrom_not_Nil [of sep "[]" r] by (cases "splitFrom sep [] r") auto
  with hd_splitFrom [OF assms(1), of "[]" r] have "x = hd (splitOnFirst sep [] r)"
    by simp
  with x splitFrom_first_occurrence [OF assms] assms(1) show ?thesis
    by (simp add: split_def)
qed

text \<open>A separator of one character.\<close>

lemma splitOnFirst_absent:
  "c \<notin> set xs \<Longrightarrow> splitOnFirst [c] cur xs = [cur @ xs]"
  by (induction xs arbitrary: cur) auto

lemma splitOnFirst_present:
  "c \<notin> set xs \<Longrightarrow> splitOnFirst [c] cur (xs @ c # ys) = [cur @ xs, ys]"
  by (induction xs arbitrary: cur) auto

lemma splitFrom_absent:
  "c \<notin> set xs \<Longrightarrow> splitFrom [c] cur xs = [cur @ xs]"
  by (rule splitFrom_no_occurrence) (simp_all add: splitOnFirst_absent)

lemma splitFrom_present:
  "c \<notin> set xs \<Longrightarrow> splitFrom [c] cur (xs @ c # ys) = (cur @ xs) # splitFrom [c] [] ys"
  by (rule splitFrom_first_occurrence) (simp_all add: splitOnFirst_present)

lemma splitFrom_hd:
  assumes "c \<notin> set xs" and "rest = [] \<or> hd rest = c"
  shows "\<exists>others. splitFrom [c] [] (xs @ rest) = xs # others"
proof (cases rest)
  case Nil
  with assms(1) show ?thesis by (simp add: splitFrom_absent)
next
  case (Cons d ds)
  with assms show ?thesis
    using splitFrom_present [of c xs "[]" ds] by simp
qed

lemma length_splitFrom_char:
  "length (splitFrom [c] cur xs) = Suc (length (filter (\<lambda>x. x = c) xs))"
  by (induction xs arbitrary: cur) auto

text \<open>A string in which the separator does not occur is not cut.\<close>

lemma splitOnFirst_no_infix:
  assumes "\<And>x y. s \<noteq> x @ sep @ y"
  shows "splitOnFirst sep cur s = [cur @ s]"
  using assms
proof (induction s arbitrary: cur)
  case Nil
  then show ?case by simp
next
  case (Cons c cs)
  have np: "\<not> prefix sep (c # cs)"
  proof
    assume "prefix sep (c # cs)"
    then obtain y where "c # cs = sep @ y"
      by (auto simp: prefix_def)
    with Cons.prems [of "[]" y] show False by simp
  qed
  have "\<And>x y. cs \<noteq> x @ sep @ y"
  proof
    fix x y
    assume "cs = x @ sep @ y"
    with Cons.prems [of "c # x" y] show False by simp
  qed
  from Cons.IH [OF this, of "cur @ [c]"] np show ?case by simp
qed

section \<open>Properties of the comparison\<close>

lemma num_less_irrefl: "num_less x x \<noteq> Some True"
  by (cases x) simp_all

lemma num_gt_irrefl: "\<not> num_gt x x"
  by (simp add: num_gt_def num_less_irrefl)

lemma num_less_NaN_right: "num_less x NaN = None"
  by (cases x) simp_all

lemma num_gt_NaN: "\<not> num_gt NaN y" "\<not> num_gt x NaN"
  by (simp_all add: num_gt_def num_less_NaN_right)

lemma num_gt_total: "x \<noteq> NaN \<Longrightarrow> y \<noteq> NaN \<Longrightarrow> x \<noteq> y \<Longrightarrow> num_gt x y \<or> num_gt y x"
  by (cases x; cases y) (auto simp: num_gt_def)

lemma num_gt_asym: "num_gt x y \<Longrightarrow> \<not> num_gt y x"
  by (cases x; cases y) (auto simp: num_gt_def)

lemma str_less_irrefl: "\<not> str_less s s"
  by (induction s) simp_all

text \<open>\<open>str_less\<close> is the lexicographic order of the code units.\<close>

lemma str_less_lexord:
  "str_less s t \<longleftrightarrow> (s, t) \<in> lexord {(c, d). (of_char c :: nat) < of_char d}"
  by (induction s t rule: str_less.induct) auto

lemma js_gt_nums: "js_gt ext (VNum x) (VNum y) = num_gt x y"
  by (simp add: js_gt_def num_gt_def)

lemma parseOPAVersion_cases:
  "parseOPAVersion ext s = [] \<or>
   (\<exists>m n p q. parseOPAVersion ext s = [VNum m, VNum n, VNum p, VStr q])"
  by (simp add: parseOPAVersion_def Let_def)

lemma length_parseOPAVersion:
  "length (parseOPAVersion ext s) = 0 \<or> length (parseOPAVersion ext s) = 4"
  using parseOPAVersion_cases [of ext s] by auto

lemma compareFields_3: "compareFields ext av bv 3 = None"
  by simp

lemma compareFields_step:
  "i < 3 \<Longrightarrow> compareFields ext av bv i =
     (if js_gt ext (av ! i) (bv ! i) then Some True
      else if js_gt ext (bv ! i) (av ! i) then Some False
      else compareFields ext av bv (Suc i))"
  by (subst compareFields.simps) simp

lemma compareFields_nums:
  "compareFields ext [VNum a1, VNum a2, VNum a3, x] [VNum b1, VNum b2, VNum b3, y] 0 =
     (if num_gt a1 b1 then Some True else if num_gt b1 a1 then Some False
      else if num_gt a2 b2 then Some True else if num_gt b2 a2 then Some False
      else if num_gt a3 b3 then Some True else if num_gt b3 a3 then Some False
      else None)"
proof -
  have three: "Suc (Suc (Suc 0)) = 3" by simp
  show ?thesis
    by (simp only: compareFields_step [of 0] compareFields_step [of "Suc 0"]
          compareFields_step [of "Suc (Suc 0)"] three compareFields_3
          nth_Cons_0 nth_Cons_Suc js_gt_nums)
qed

text \<open>On two parsed versions the comparison is the ordering rule.\<close>

lemma opaVersionSameOrNewerThan_fields:
  assumes "parseOPAVersion ext a = [VNum a1, VNum a2, VNum a3, VStr ap]"
      and "parseOPAVersion ext b = [VNum b1, VNum b2, VNum b3, VStr bp]"
  shows "opaVersionSameOrNewerThan ext a b =
           fieldsDecide [(a1, b1), (a2, b2), (a3, b3)] (patchDecides ap bp)"
  unfolding opaVersionSameOrNewerThan_def Let_def assms compareFields_nums
  by (simp add: js_ge_def patchDecides_def del: compareFields.simps)

lemmas version_eval =
  parseOPAVersion_def split_def Number_def isDigit_def isLetter_def decimalValue_def

section \<open>Properties of the parser\<close>

lemma parseOPAVersion_few_dots:
  assumes "length (filter (\<lambda>c. c = CHR ''.'') s) < 2"
  shows "parseOPAVersion ext s = []"
proof -
  have "length (splitFrom ''.'' [] s) < 3"
    using assms by (simp add: length_splitFrom_char)
  then show ?thesis
    by (simp add: parseOPAVersion_def split_def)
qed

lemma split_dots:
  assumes "CHR ''.'' \<notin> set p0" "CHR ''.'' \<notin> set p1" "CHR ''.'' \<notin> set p2"
      and "rest = [] \<or> hd rest = CHR ''.''"
  shows "split ''.'' (Some 3) (p0 @ ''.'' @ p1 @ ''.'' @ p2 @ rest) = [p0, p1, p2]"
proof -
  from splitFrom_hd [OF assms(3,4)] obtain others
    where m: "splitFrom ''.'' [] (p2 @ rest) = p2 # others" by blast
  have "splitFrom ''.'' [] (p0 @ ''.'' @ p1 @ ''.'' @ p2 @ rest) = p0 # p1 # p2 # others"
    using splitFrom_present [OF assms(1), of "[]" "p1 @ ''.'' @ p2 @ rest"]
          splitFrom_present [OF assms(2), of "[]" "p2 @ rest"] m
    by simp
  then show ?thesis by (simp add: split_def)
qed

lemma split_dash_absent:
  assumes "CHR ''-'' \<notin> set q0"
  shows "split ''-'' (Some 2) q0 = [q0]"
  using splitFrom_absent [OF assms, of "[]"] by (simp add: split_def)

lemma split_dash_present:
  assumes "CHR ''-'' \<notin> set q0" "CHR ''-'' \<notin> set q1"
      and "rest = [] \<or> hd rest = CHR ''-''"
  shows "split ''-'' (Some 2) (q0 @ ''-'' @ q1 @ rest) = [q0, q1]"
proof -
  from splitFrom_hd [OF assms(2,3)] obtain others
    where m: "splitFrom ''-'' [] (q1 @ rest) = q1 # others" by blast
  have "splitFrom ''-'' [] (q0 @ ''-'' @ q1 @ rest) = q0 # q1 # others"
    using splitFrom_present [OF assms(1), of "[]" "q1 @ rest"] m by simp
  then show ?thesis by (simp add: split_def)
qed

lemma parseOPAVersion_no_dash:
  assumes "CHR ''.'' \<notin> set p0" "CHR ''.'' \<notin> set p1" "CHR ''.'' \<notin> set q0"
      and "CHR ''-'' \<notin> set q0"
      and "rest = [] \<or> hd rest = CHR ''.''"
  shows "parseOPAVersion ext (p0 @ ''.'' @ p1 @ ''.'' @ q0 @ rest) =
           [VNum (Number ext p0), VNum (Number ext p1), VNum (Number ext q0), VStr '''']"
  unfolding parseOPAVersion_def split_dots [OF assms(1,2,3,5)]
  by (simp add: split_dash_absent [OF assms(4)])

lemma parseOPAVersion_dash:
  assumes "CHR ''.'' \<notin> set p0" "CHR ''.'' \<notin> set p1" "CHR ''.'' \<notin> set q0" "CHR ''.'' \<notin> set q1"
      and "CHR ''-'' \<notin> set q0" "CHR ''-'' \<notin> set q1"
      and "rest = [] \<or> hd rest = CHR ''-'' \<or> hd rest = CHR ''.''"
  shows "parseOPAVersion ext (p0 @ ''.'' @ p1 @ ''.'' @ q0 @ ''-'' @ q1 @ rest) =
           [VNum (Number ext p0), VNum (Number ext p1), VNum (Number ext q0), VStr q1]"
proof -
  define r1 where "r1 = takeWhile (\<lambda>c. c \<noteq> CHR ''.'') rest"
  define r2 where "r2 = dropWhile (\<lambda>c. c \<noteq> CHR ''.'') rest"
  have rest: "rest = r1 @ r2"
    by (simp add: r1_def r2_def)
  have r1_dot: "CHR ''.'' \<notin> set r1"
    unfolding r1_def by (auto dest: set_takeWhileD)
  have r2_hd: "r2 = [] \<or> hd r2 = CHR ''.''"
    unfolding r2_def using hd_dropWhile [of "\<lambda>c. c \<noteq> CHR ''.''" rest] by auto
  have r1_hd: "r1 = [] \<or> hd r1 = CHR ''-''"
    using assms(7) unfolding r1_def by (cases rest) auto
  have third: "CHR ''.'' \<notin> set (q0 @ ''-'' @ q1 @ r1)"
    using assms(3,4) r1_dot by simp
  have parts: "split ''.'' (Some 3) (p0 @ ''.'' @ p1 @ ''.'' @ (q0 @ ''-'' @ q1 @ r1) @ r2) =
                 [p0, p1, q0 @ ''-'' @ q1 @ r1]"
    by (rule split_dots [OF assms(1,2) third r2_hd])
  have pieces: "split ''-'' (Some 2) (q0 @ ''-'' @ q1 @ r1) = [q0, q1]"
    by (rule split_dash_present [OF assms(5,6) r1_hd])
  have "parseOPAVersion ext (p0 @ ''.'' @ p1 @ ''.'' @ (q0 @ ''-'' @ q1 @ r1) @ r2) =
           [VNum (Number ext p0), VNum (Number ext p1), VNum (Number ext q0), VStr q1]"
    unfolding parseOPAVersion_def parts using pieces by simp
  then show ?thesis by (simp add: rest)
qed

text \<open>Two dots are enough for four fields.\<close>

lemma parseOPAVersion_two_dots:
  assumes "2 \<le> length (filter (\<lambda>c. c = CHR ''.'') s)"
  shows "length (parseOPAVersion ext s) = 4"
proof -
  have "\<not> length (take 3 (splitFrom ''.'' [] s)) < 3"
    using assms by (simp add: length_splitFrom_char)
  then show ?thesis
    by (simp add: parseOPAVersion_def split_def Let_def)
qed

text \<open>The parser against the specification's wording: the same fields, but the patch
  ends at its first \<^verbatim>\<open>-\<close>.\<close>

lemma parseOPAVersion_Parse_spec:
  "parseOPAVersion ext s =
     map (\<lambda>f. case f of VNum n \<Rightarrow> VNum n | VStr q \<Rightarrow> VStr (hd (splitOnFirst ''-'' [] q)))
       (Parse_spec ext s)"
proof (cases "length (split ''.'' (Some 3) s) < 3")
  case True
  then show ?thesis
    by (simp add: parseOPAVersion_def Parse_spec_def)
next
  case False
  define third where "third = split ''.'' (Some 3) s ! 2"
  from length_splitOnFirst [of "''-''" "[]" third]
  consider a where "splitOnFirst ''-'' [] third = [a]"
    | a r where "splitOnFirst ''-'' [] third = [a, r]"
    by (cases "splitOnFirst ''-'' [] third" rule: list.exhaust)
       (auto simp: length_Suc_conv)
  then show ?thesis
  proof cases
    case 1
    have p: "split ''-'' (Some 2) third = [a]"
      by (rule split_2_no_occurrence [OF _ 1]) simp
    show ?thesis
      using False
      by (simp add: parseOPAVersion_def Parse_spec_def Let_def third_def [symmetric] p 1)
  next
    case 2
    have p: "split ''-'' (Some 2) third = [a, hd (splitOnFirst ''-'' [] r)]"
      by (rule split_2_first_occurrence [OF _ 2]) simp
    show ?thesis
      using False
      by (simp add: parseOPAVersion_def Parse_spec_def Let_def third_def [symmetric] p 2)
  qed
qed

subsection \<open>Parsed examples\<close>

lemma parse_0_15_0:
  "parseOPAVersion ext ''0.15.0'' = [VNum (Fin 0), VNum (Fin 15), VNum (Fin 0), VStr '''']"
  by (simp add: version_eval)

lemma parse_0_13_0:
  "parseOPAVersion ext ''0.13.0'' = [VNum (Fin 0), VNum (Fin 13), VNum (Fin 0), VStr '''']"
  by (simp add: version_eval)

lemma parse_0_14_0:
  "parseOPAVersion ext ''0.14.0'' = [VNum (Fin 0), VNum (Fin 14), VNum (Fin 0), VStr '''']"
  by (simp add: version_eval)

lemma parse_0_14_0_dev:
  "parseOPAVersion ext ''0.14.0-dev'' = [VNum (Fin 0), VNum (Fin 14), VNum (Fin 0), VStr ''dev'']"
  by (simp add: version_eval)

lemma parse_not_a_version: "parseOPAVersion ext ''not-a-version'' = []"
  by (simp add: version_eval)

lemma parse_a_b_c:
  "parseOPAVersion ext ''a.b.c'' = [VNum NaN, VNum NaN, VNum NaN, VStr '''']"
  by (simp add: version_eval)

lemma parse_a_b_c_x:
  "parseOPAVersion ext ''a.b.c-x'' = [VNum NaN, VNum NaN, VNum NaN, VStr ''x'']"
  by (simp add: version_eval)

subsection \<open>The order of the fields\<close>

lemma parse_x_5_0:
  "parseOPAVersion ext ''x.5.0'' = [VNum NaN, VNum (Fin 5), VNum (Fin 0), VStr '''']"
  by (simp add: version_eval)

lemma parse_x_3_0:
  "parseOPAVersion ext ''x.3.0'' = [VNum NaN, VNum (Fin 3), VNum (Fin 0), VStr '''']"
  by (simp add: version_eval)

lemma parse_0_3_0:
  "parseOPAVersion ext ''0.3.0'' = [VNum (Fin 0), VNum (Fin 3), VNum (Fin 0), VStr '''']"
  by (simp add: version_eval)

lemma parse_0_5_0:
  "parseOPAVersion ext ''0.5.0'' = [VNum (Fin 0), VNum (Fin 5), VNum (Fin 0), VStr '''']"
  by (simp add: version_eval)

lemma num_gt_Fin: "num_gt (Fin u) (Fin v) \<longleftrightarrow> v < u"
  by (simp add: num_gt_def)

text \<open>
  Claim C1, as amended. When both version strings parse to four fields,
  \<^verbatim>\<open>opaVersionSameOrNewerThan\<close> looks at major, then minor, then point, as numbers, and
  the first of them where one side is greater than the other decides: the result is
  true when the greater one is \<open>a\<close>'s and false when it is \<open>b\<close>'s. A field decides nothing
  when the two sides are equal and also when one of them is not-a-number (no number is
  greater or smaller than not-a-number); the next field is looked at then. When none of
  the three decides, the patches do: an empty patch against a non-empty one makes the
  side with the empty patch newer, and otherwise the result is the lexicographic
  comparison \<^verbatim>\<open>a's patch >= b's patch\<close>, that is, \<open>a\<close>'s patch is not below \<open>b\<close>'s in the
  lexicographic order of the code units. For fields that are numbers, two sides that
  differ always have a greater one, so there the first field where the two differ
  decides.
\<close>

theorem opaVersionSameOrNewerThan_field_order:
  assumes pa: "parseOPAVersion ext a = [VNum a1, VNum a2, VNum a3, VStr ap]"
      and pb: "parseOPAVersion ext b = [VNum b1, VNum b2, VNum b3, VStr bp]"
  shows "opaVersionSameOrNewerThan ext a b =
           (if num_gt a1 b1 then True else if num_gt b1 a1 then False
            else if num_gt a2 b2 then True else if num_gt b2 a2 then False
            else if num_gt a3 b3 then True else if num_gt b3 a3 then False
            else if ap = [] \<and> bp \<noteq> [] then True
            else if ap \<noteq> [] \<and> bp = [] then False
            else \<not> str_less ap bp) \<and>
         (a1 \<noteq> NaN \<and> b1 \<noteq> NaN \<and> a1 \<noteq> b1 \<longrightarrow>
            opaVersionSameOrNewerThan ext a b = num_gt a1 b1) \<and>
         (a1 = b1 \<and> a2 \<noteq> NaN \<and> b2 \<noteq> NaN \<and> a2 \<noteq> b2 \<longrightarrow>
            opaVersionSameOrNewerThan ext a b = num_gt a2 b2) \<and>
         (a1 = b1 \<and> a2 = b2 \<and> a3 \<noteq> NaN \<and> b3 \<noteq> NaN \<and> a3 \<noteq> b3 \<longrightarrow>
            opaVersionSameOrNewerThan ext a b = num_gt a3 b3) \<and>
         (a1 = b1 \<and> a2 = b2 \<and> a3 = b3 \<longrightarrow>
            opaVersionSameOrNewerThan ext a b =
              (if ap = [] \<and> bp \<noteq> [] then True
               else if ap \<noteq> [] \<and> bp = [] then False
               else \<not> str_less ap bp)) \<and>
         (num_gt (Fin u) (Fin v) \<longleftrightarrow> v < u) \<and>
         \<not> num_gt NaN y \<and> \<not> num_gt x NaN \<and>
         (x \<noteq> NaN \<and> y \<noteq> NaN \<and> x \<noteq> y \<longrightarrow> num_gt x y \<or> num_gt y x) \<and>
         (str_less ap bp \<longleftrightarrow> (ap, bp) \<in> lexord {(c, d). (of_char c :: nat) < of_char d})"
proof -
  have r: "opaVersionSameOrNewerThan ext a b =
           (if num_gt a1 b1 then True else if num_gt b1 a1 then False
            else if num_gt a2 b2 then True else if num_gt b2 a2 then False
            else if num_gt a3 b3 then True else if num_gt b3 a3 then False
            else if ap = [] \<and> bp \<noteq> [] then True
            else if ap \<noteq> [] \<and> bp = [] then False
            else \<not> str_less ap bp)"
    by (simp add: opaVersionSameOrNewerThan_fields [OF pa pb] patchDecides_def)
  have t: "\<And>p q. p \<noteq> NaN \<and> q \<noteq> NaN \<and> p \<noteq> q \<Longrightarrow> num_gt p q \<noteq> num_gt q p"
    using num_gt_total num_gt_asym by blast
  have c1: "a1 \<noteq> NaN \<and> b1 \<noteq> NaN \<and> a1 \<noteq> b1 \<longrightarrow>
            opaVersionSameOrNewerThan ext a b = num_gt a1 b1"
  proof
    assume "a1 \<noteq> NaN \<and> b1 \<noteq> NaN \<and> a1 \<noteq> b1"
    from t [OF this] show "opaVersionSameOrNewerThan ext a b = num_gt a1 b1"
      unfolding r by auto
  qed
  have c2: "a1 = b1 \<and> a2 \<noteq> NaN \<and> b2 \<noteq> NaN \<and> a2 \<noteq> b2 \<longrightarrow>
            opaVersionSameOrNewerThan ext a b = num_gt a2 b2"
  proof
    assume h: "a1 = b1 \<and> a2 \<noteq> NaN \<and> b2 \<noteq> NaN \<and> a2 \<noteq> b2"
    then have "num_gt a2 b2 \<noteq> num_gt b2 a2" using t [of a2 b2] by blast
    with h show "opaVersionSameOrNewerThan ext a b = num_gt a2 b2"
      unfolding r using num_gt_irrefl [of b1] by auto
  qed
  have c3: "a1 = b1 \<and> a2 = b2 \<and> a3 \<noteq> NaN \<and> b3 \<noteq> NaN \<and> a3 \<noteq> b3 \<longrightarrow>
            opaVersionSameOrNewerThan ext a b = num_gt a3 b3"
  proof
    assume h: "a1 = b1 \<and> a2 = b2 \<and> a3 \<noteq> NaN \<and> b3 \<noteq> NaN \<and> a3 \<noteq> b3"
    then have "num_gt a3 b3 \<noteq> num_gt b3 a3" using t [of a3 b3] by blast
    with h show "opaVersionSameOrNewerThan ext a b = num_gt a3 b3"
      unfolding r using num_gt_irrefl [of b1] num_gt_irrefl [of b2] by auto
  qed
  have c4: "a1 = b1 \<and> a2 = b2 \<and> a3 = b3 \<longrightarrow>
            opaVersionSameOrNewerThan ext a b =
              (if ap = [] \<and> bp \<noteq> [] then True
               else if ap \<noteq> [] \<and> bp = [] then False
               else \<not> str_less ap bp)"
    by (simp add: r num_gt_irrefl)
  have c5: "num_gt (Fin u) (Fin v) \<longleftrightarrow> v < u"
    by (rule num_gt_Fin)
  have c6: "\<not> num_gt NaN y" "\<not> num_gt x NaN"
    by (rule num_gt_NaN)+
  have c7: "x \<noteq> NaN \<and> y \<noteq> NaN \<and> x \<noteq> y \<longrightarrow> num_gt x y \<or> num_gt y x"
    using num_gt_total by blast
  have c8: "str_less ap bp \<longleftrightarrow> (ap, bp) \<in> lexord {(c, d). (of_char c :: nat) < of_char d}"
    by (rule str_less_lexord)
  from r c1 c2 c3 c4 c5 c6 c7 c8 show ?thesis by blast
qed

theorem opaVersionSameOrNewerThan_field_order_witness:
  "parseOPAVersion noExt ''0.15.0'' = [VNum (Fin 0), VNum (Fin 15), VNum (Fin 0), VStr ''''] \<and>
   parseOPAVersion noExt ''0.13.0'' = [VNum (Fin 0), VNum (Fin 13), VNum (Fin 0), VStr ''''] \<and>
   parseOPAVersion noExt ''0.14.0'' = [VNum (Fin 0), VNum (Fin 14), VNum (Fin 0), VStr ''''] \<and>
   parseOPAVersion noExt ''0.14.0-dev'' = [VNum (Fin 0), VNum (Fin 14), VNum (Fin 0), VStr ''dev''] \<and>
   parseOPAVersion noExt ''x.3.0'' = [VNum NaN, VNum (Fin 3), VNum (Fin 0), VStr ''''] \<and>
   parseOPAVersion noExt ''0.5.0'' = [VNum (Fin 0), VNum (Fin 5), VNum (Fin 0), VStr ''''] \<and>
   Fin 0 = Fin 0 \<and> Fin 15 \<noteq> NaN \<and> Fin 14 \<noteq> NaN \<and> Fin 15 \<noteq> Fin 14 \<and> num_gt (Fin 15) (Fin 14) \<and>
   opaVersionSameOrNewerThan noExt ''0.15.0'' ''0.14.0-dev'' \<and>
   \<not> opaVersionSameOrNewerThan noExt ''0.13.0'' ''0.14.0-dev'' \<and>
   opaVersionSameOrNewerThan noExt ''0.14.0'' ''0.14.0-dev'' \<and>
   \<not> opaVersionSameOrNewerThan noExt ''0.14.0-dev'' ''0.14.0'' \<and>
   \<not> opaVersionSameOrNewerThan noExt ''x.3.0'' ''0.5.0''"
  using opaVersionSameOrNewerThan_field_order [OF parse_0_15_0 parse_0_14_0_dev, where ext = noExt]
        opaVersionSameOrNewerThan_field_order [OF parse_0_13_0 parse_0_14_0_dev, where ext = noExt]
        opaVersionSameOrNewerThan_field_order [OF parse_0_14_0 parse_0_14_0_dev, where ext = noExt]
        opaVersionSameOrNewerThan_field_order [OF parse_0_14_0_dev parse_0_14_0, where ext = noExt]
        opaVersionSameOrNewerThan_field_order [OF parse_x_3_0 parse_0_5_0, where ext = noExt]
  by (simp add: parse_0_15_0 parse_0_13_0 parse_0_14_0 parse_0_14_0_dev parse_x_3_0 parse_0_5_0
        num_gt_def)

text \<open>
  The claim as stated, with the first field where the two differ deciding, fails where a
  field is not-a-number on one side. The majors of \<^verbatim>\<open>"x.5.0"\<close> and \<^verbatim>\<open>"0.3.0"\<close> differ
  and \<open>a\<close>'s is not the greater one, yet the result is true; the majors of \<^verbatim>\<open>"x.3.0"\<close> and
  \<^verbatim>\<open>"0.5.0"\<close> are the same two, and the result is false: it is the minor that decides.
\<close>

theorem opaVersionSameOrNewerThan_first_difference_counterexample:
  "parseOPAVersion noExt ''x.5.0'' = [VNum NaN, VNum (Fin 5), VNum (Fin 0), VStr ''''] \<and>
   parseOPAVersion noExt ''0.3.0'' = [VNum (Fin 0), VNum (Fin 3), VNum (Fin 0), VStr ''''] \<and>
   parseOPAVersion noExt ''x.3.0'' = [VNum NaN, VNum (Fin 3), VNum (Fin 0), VStr ''''] \<and>
   parseOPAVersion noExt ''0.5.0'' = [VNum (Fin 0), VNum (Fin 5), VNum (Fin 0), VStr ''''] \<and>
   NaN \<noteq> Fin 0 \<and> \<not> num_gt NaN (Fin 0) \<and> \<not> num_gt (Fin 0) NaN \<and>
   \<not> firstDifferenceDecides [(NaN, Fin 0), (Fin 5, Fin 3), (Fin 0, Fin 0)] (patchDecides '''' '''') \<and>
   opaVersionSameOrNewerThan noExt ''x.5.0'' ''0.3.0'' \<and>
   \<not> opaVersionSameOrNewerThan noExt ''x.3.0'' ''0.5.0''"
  by (simp add: parse_x_5_0 parse_0_3_0 parse_x_3_0 parse_0_5_0 num_gt_def patchDecides_def
        opaVersionSameOrNewerThan_fields [OF parse_x_5_0 parse_0_3_0]
        opaVersionSameOrNewerThan_fields [OF parse_x_3_0 parse_0_5_0])

subsection \<open>The permissive default\<close>

text \<open>
  Claim C2. When the parse of \<open>a\<close> or of \<open>b\<close> does not have exactly four fields, which
  is when it has none, \<^verbatim>\<open>opaVersionSameOrNewerThan\<close> returns true; \<^verbatim>\<open>"not-a-version"\<close> parses to the array of
  length zero and compares as true against \<^verbatim>\<open>"0.14.0-dev"\<close>. The result is a truth value
  in every case: no error is returned.
\<close>

theorem opaVersionSameOrNewerThan_invalid_parse:
  "(length (parseOPAVersion ext a) \<noteq> 4 \<or> length (parseOPAVersion ext b) \<noteq> 4
      \<longrightarrow> opaVersionSameOrNewerThan ext a b) \<and>
   (length (parseOPAVersion ext a) \<noteq> 4 \<longleftrightarrow> length (parseOPAVersion ext a) = 0) \<and>
   length (parseOPAVersion ext ''not-a-version'') = 0 \<and>
   opaVersionSameOrNewerThan ext ''not-a-version'' ''0.14.0-dev''"
  using length_parseOPAVersion [of ext a]
  by (auto simp: opaVersionSameOrNewerThan_def parse_not_a_version simp del: compareFields.simps)

theorem opaVersionSameOrNewerThan_invalid_parse_witness:
  "length (parseOPAVersion noExt ''1.2'') \<noteq> 4 \<and>
   opaVersionSameOrNewerThan noExt ''1.2'' ''0.14.0-dev'' \<and>
   opaVersionSameOrNewerThan noExt ''0.14.0-dev'' ''1.2''"
proof -
  have l: "length (parseOPAVersion noExt ''1.2'') \<noteq> 4"
    by (simp add: version_eval)
  from l opaVersionSameOrNewerThan_invalid_parse [of noExt "''1.2''" "''0.14.0-dev''"]
       opaVersionSameOrNewerThan_invalid_parse [of noExt "''0.14.0-dev''" "''1.2''"]
  show ?thesis by blast
qed

subsection \<open>Reflexivity\<close>

text \<open>
  Claim C7. A version is the same as or newer than itself:
  \<^verbatim>\<open>opaVersionSameOrNewerThan(a, a)\<close> is true for every version string \<open>a\<close>, in particular
  for every \<open>a\<close> that parses to four fields, whatever its patch is.
\<close>

theorem opaVersionSameOrNewerThan_refl:
  "opaVersionSameOrNewerThan ext a a"
proof (cases "parseOPAVersion ext a = []")
  case True
  then show ?thesis
    by (simp add: opaVersionSameOrNewerThan_def del: compareFields.simps)
next
  case False
  with parseOPAVersion_cases [of ext a]
  obtain m n p q where pa: "parseOPAVersion ext a = [VNum m, VNum n, VNum p, VStr q]"
    by blast
  show ?thesis
    by (simp add: opaVersionSameOrNewerThan_fields [OF pa pa] num_gt_irrefl
          patchDecides_def str_less_irrefl)
qed

theorem opaVersionSameOrNewerThan_refl_witness:
  "length (parseOPAVersion noExt ''0.14.0-dev'') = 4 \<and>
   opaVersionSameOrNewerThan noExt ''0.14.0-dev'' ''0.14.0-dev''"
  using opaVersionSameOrNewerThan_refl [of noExt "''0.14.0-dev''"]
  by (simp add: parse_0_14_0_dev)

subsection \<open>Fields that are not numbers\<close>

text \<open>
  Claim C10. A version string with three dot-separated pieces parses to four fields
  whatever the pieces are. A component that starts with a letter (other than the \<^verbatim>\<open>I\<close> of
  \<^verbatim>\<open>Infinity\<close>) gives a not-a-number field, and \<^verbatim>\<open>"a.b.c"\<close> gives three of them with an
  empty patch, so the permissive default is not taken. A field that is not-a-number on
  either side is neither greater nor smaller than the field of the other side; the
  comparison passes over it, and its result is the one the other fields and finally the
  patches give.
\<close>

theorem opaVersionSameOrNewerThan_nan_fields:
  assumes pa: "parseOPAVersion ext a = [VNum a1, VNum a2, VNum a3, VStr ap]"
      and pb: "parseOPAVersion ext b = [VNum b1, VNum b2, VNum b3, VStr bp]"
  shows "(2 \<le> length (filter (\<lambda>c. c = CHR ''.'') s) \<longrightarrow> length (parseOPAVersion ext s) = 4) \<and>
         (isLetter c \<and> c \<noteq> CHR ''I'' \<longrightarrow> Number ext (c # cs) = NaN) \<and>
         parseOPAVersion ext ''a.b.c'' = [VNum NaN, VNum NaN, VNum NaN, VStr ''''] \<and>
         (a1 = NaN \<or> b1 = NaN \<longrightarrow> \<not> num_gt a1 b1 \<and> \<not> num_gt b1 a1 \<and>
            opaVersionSameOrNewerThan ext a b =
              fieldsDecide [(a2, b2), (a3, b3)] (patchDecides ap bp)) \<and>
         (a2 = NaN \<or> b2 = NaN \<longrightarrow> \<not> num_gt a2 b2 \<and> \<not> num_gt b2 a2 \<and>
            opaVersionSameOrNewerThan ext a b =
              fieldsDecide [(a1, b1), (a3, b3)] (patchDecides ap bp)) \<and>
         (a3 = NaN \<or> b3 = NaN \<longrightarrow> \<not> num_gt a3 b3 \<and> \<not> num_gt b3 a3 \<and>
            opaVersionSameOrNewerThan ext a b =
              fieldsDecide [(a1, b1), (a2, b2)] (patchDecides ap bp)) \<and>
         ((a1 = NaN \<or> b1 = NaN) \<and> (a2 = NaN \<or> b2 = NaN) \<and> (a3 = NaN \<or> b3 = NaN) \<longrightarrow>
            opaVersionSameOrNewerThan ext a b = patchDecides ap bp)"
proof -
  note r = opaVersionSameOrNewerThan_fields [OF pa pb]
  have n: "\<And>x y. x = NaN \<or> y = NaN \<Longrightarrow> \<not> num_gt x y \<and> \<not> num_gt y x"
    using num_gt_NaN by blast
  have c1: "a1 = NaN \<or> b1 = NaN \<longrightarrow> \<not> num_gt a1 b1 \<and> \<not> num_gt b1 a1 \<and>
            opaVersionSameOrNewerThan ext a b =
              fieldsDecide [(a2, b2), (a3, b3)] (patchDecides ap bp)"
  proof
    assume "a1 = NaN \<or> b1 = NaN"
    from n [OF this] show "\<not> num_gt a1 b1 \<and> \<not> num_gt b1 a1 \<and>
            opaVersionSameOrNewerThan ext a b =
              fieldsDecide [(a2, b2), (a3, b3)] (patchDecides ap bp)"
      by (simp add: r)
  qed
  have c2: "a2 = NaN \<or> b2 = NaN \<longrightarrow> \<not> num_gt a2 b2 \<and> \<not> num_gt b2 a2 \<and>
            opaVersionSameOrNewerThan ext a b =
              fieldsDecide [(a1, b1), (a3, b3)] (patchDecides ap bp)"
  proof
    assume "a2 = NaN \<or> b2 = NaN"
    from n [OF this] show "\<not> num_gt a2 b2 \<and> \<not> num_gt b2 a2 \<and>
            opaVersionSameOrNewerThan ext a b =
              fieldsDecide [(a1, b1), (a3, b3)] (patchDecides ap bp)"
      by (simp add: r)
  qed
  have c3: "a3 = NaN \<or> b3 = NaN \<longrightarrow> \<not> num_gt a3 b3 \<and> \<not> num_gt b3 a3 \<and>
            opaVersionSameOrNewerThan ext a b =
              fieldsDecide [(a1, b1), (a2, b2)] (patchDecides ap bp)"
  proof
    assume "a3 = NaN \<or> b3 = NaN"
    from n [OF this] show "\<not> num_gt a3 b3 \<and> \<not> num_gt b3 a3 \<and>
            opaVersionSameOrNewerThan ext a b =
              fieldsDecide [(a1, b1), (a2, b2)] (patchDecides ap bp)"
      by (simp add: r)
  qed
  have c4: "(a1 = NaN \<or> b1 = NaN) \<and> (a2 = NaN \<or> b2 = NaN) \<and> (a3 = NaN \<or> b3 = NaN) \<longrightarrow>
            opaVersionSameOrNewerThan ext a b = patchDecides ap bp"
  proof
    assume h: "(a1 = NaN \<or> b1 = NaN) \<and> (a2 = NaN \<or> b2 = NaN) \<and> (a3 = NaN \<or> b3 = NaN)"
    from h n [of a1 b1] n [of a2 b2] n [of a3 b3]
    have "\<not> num_gt a1 b1" "\<not> num_gt b1 a1" "\<not> num_gt a2 b2" "\<not> num_gt b2 a2"
         "\<not> num_gt a3 b3" "\<not> num_gt b3 a3"
      by blast+
    then show "opaVersionSameOrNewerThan ext a b = patchDecides ap bp"
      by (simp add: r)
  qed
  have c5: "2 \<le> length (filter (\<lambda>c. c = CHR ''.'') s) \<longrightarrow> length (parseOPAVersion ext s) = 4"
    by (rule impI) (rule parseOPAVersion_two_dots)
  have c6: "isLetter c \<and> c \<noteq> CHR ''I'' \<longrightarrow> Number ext (c # cs) = NaN"
    by (auto simp: Number_def isLetter_def isDigit_def)
  from c5 c6 parse_a_b_c c1 c2 c3 c4 show ?thesis by blast
qed

theorem opaVersionSameOrNewerThan_nan_fields_witness:
  "parseOPAVersion noExt ''a.b.c-x'' = [VNum NaN, VNum NaN, VNum NaN, VStr ''x''] \<and>
   parseOPAVersion noExt ''0.14.0'' = [VNum (Fin 0), VNum (Fin 14), VNum (Fin 0), VStr ''''] \<and>
   \<not> opaVersionSameOrNewerThan noExt ''a.b.c-x'' ''0.14.0'' \<and>
   opaVersionSameOrNewerThan noExt ''0.14.0'' ''a.b.c-x''"
  using opaVersionSameOrNewerThan_nan_fields
          [OF parse_a_b_c_x parse_0_14_0, where ext = noExt and s = "''a.b.c-x''"
             and c = "CHR ''a''" and cs = "''''"]
        opaVersionSameOrNewerThan_nan_fields
          [OF parse_0_14_0 parse_a_b_c_x, where ext = noExt and s = "''a.b.c-x''"
             and c = "CHR ''a''" and cs = "''''"]
  by (simp add: parse_a_b_c_x parse_0_14_0 patchDecides_def)

subsection \<open>What the parser returns\<close>

text \<open>
  Claim C3, as amended. \<^verbatim>\<open>parseOPAVersion\<close> cuts its argument at every \<^verbatim>\<open>.\<close> and keeps the
  first three pieces. With fewer than two dots it returns the array of length zero.
  Otherwise it returns four fields: the numeric values of the first and the second piece,
  and, from the third piece cut at every \<^verbatim>\<open>-\<close>, the numeric value of its first piece and,
  as patch, its second piece: the text between the first and the second \<^verbatim>\<open>-\<close>, or the
  empty string when the third piece has no \<^verbatim>\<open>-\<close>. What follows a second \<^verbatim>\<open>-\<close> or a
  third \<^verbatim>\<open>.\<close> is dropped. Against the specification's wording, which cuts the third
  piece at its first \<^verbatim>\<open>-\<close> only, the fields are the same except that the patch ends at
  its first \<^verbatim>\<open>-\<close>.
\<close>

theorem parseOPAVersion_pieces:
  "(length (filter (\<lambda>c. c = CHR ''.'') s) < 2 \<longrightarrow> parseOPAVersion ext s = []) \<and>
   (CHR ''.'' \<notin> set p0 \<and> CHR ''.'' \<notin> set p1 \<and> CHR ''.'' \<notin> set q0 \<and> CHR ''-'' \<notin> set q0 \<and>
    (rest = [] \<or> hd rest = CHR ''.'') \<longrightarrow>
      parseOPAVersion ext (p0 @ ''.'' @ p1 @ ''.'' @ q0 @ rest) =
        [VNum (Number ext p0), VNum (Number ext p1), VNum (Number ext q0), VStr '''']) \<and>
   (CHR ''.'' \<notin> set p0 \<and> CHR ''.'' \<notin> set p1 \<and> CHR ''.'' \<notin> set q0 \<and> CHR ''-'' \<notin> set q0 \<and>
    CHR ''.'' \<notin> set q1 \<and> CHR ''-'' \<notin> set q1 \<and>
    (others = [] \<or> hd others = CHR ''-'' \<or> hd others = CHR ''.'') \<longrightarrow>
      parseOPAVersion ext (p0 @ ''.'' @ p1 @ ''.'' @ q0 @ ''-'' @ q1 @ others) =
        [VNum (Number ext p0), VNum (Number ext p1), VNum (Number ext q0), VStr q1]) \<and>
   parseOPAVersion ext s =
     map (\<lambda>f. case f of VNum n \<Rightarrow> VNum n | VStr q \<Rightarrow> VStr (hd (splitOnFirst ''-'' [] q)))
       (Parse_spec ext s)"
  using parseOPAVersion_few_dots [of s ext]
        parseOPAVersion_no_dash [of p0 p1 q0 rest ext]
        parseOPAVersion_dash [of p0 p1 q0 q1 others ext]
        parseOPAVersion_Parse_spec [of ext s]
  by blast

theorem parseOPAVersion_pieces_witness:
  "length (filter (\<lambda>c. c = CHR ''.'') ''0.14'') < 2 \<and>
   parseOPAVersion noExt ''0.14'' = [] \<and>
   parseOPAVersion noExt ''0.14.0.7'' =
     [VNum (Fin 0), VNum (Fin 14), VNum (Fin 0), VStr ''''] \<and>
   parseOPAVersion noExt ''1.2.3-a-b'' =
     [VNum (Fin 1), VNum (Fin 2), VNum (Fin 3), VStr ''a'']"
  using parseOPAVersion_pieces [of "''0.14''" noExt "''0''" "''14''" "''0''" "''.7''"
          "''1''" "''-b''"]
        parseOPAVersion_pieces [of "''''" noExt "''1''" "''2''" "''3''" "''''" "''a''" "''-b''"]
  by (simp add: Number_def isDigit_def decimalValue_def)

text \<open>The claim as stated fails where the third piece has a second \<^verbatim>\<open>-\<close>: cut at the
  first \<^verbatim>\<open>-\<close> only, the patch of \<^verbatim>\<open>"1.2.3-a-b"\<close> would be \<^verbatim>\<open>"a-b"\<close>; the parser returns
  \<^verbatim>\<open>"a"\<close>.\<close>

theorem parseOPAVersion_first_dash_counterexample:
  "Parse_spec noExt ''1.2.3-a-b'' = [VNum (Fin 1), VNum (Fin 2), VNum (Fin 3), VStr ''a-b''] \<and>
   parseOPAVersion noExt ''1.2.3-a-b'' = [VNum (Fin 1), VNum (Fin 2), VNum (Fin 3), VStr ''a''] \<and>
   parseOPAVersion noExt ''1.2.3-a-b'' \<noteq> Parse_spec noExt ''1.2.3-a-b''"
  by (simp add: Parse_spec_def version_eval)

section \<open>Properties of the version query\<close>

text \<open>The loop over the lines, from index \<open>i\<close> on.\<close>

lemma scanLines_spec:
  "scanLines lines i = hd (splitOnFirst '': '' [] (versionOfLines_spec (drop i lines)))"
proof (induction lines i rule: scanLines.induct)
  case (1 lines i)
  show ?case
  proof (cases "i < length lines")
    case False
    then show ?thesis by simp
  next
    case True
    define t where "t = trim (lines ! i)"
    have d: "drop i lines = lines ! i # drop (i + 1) lines"
      using True by (simp add: Cons_nth_drop_Suc)
    from length_splitOnFirst [of "'': ''" "[]" t]
    consider a where "splitOnFirst '': '' [] t = [a]"
      | a r where "splitOnFirst '': '' [] t = [a, r]"
      by (cases "splitOnFirst '': '' [] t" rule: list.exhaust)
         (auto simp: length_Suc_conv)
    then show ?thesis
    proof cases
      case one: 1
      have p: "split '': '' (Some 2) t = [a]"
        by (rule split_2_no_occurrence [OF _ one]) simp
      have "scanLines lines i = scanLines lines (i + 1)"
        by (subst scanLines.simps) (simp add: True p t_def [symmetric] del: scanLines.simps)
      also have "\<dots> = hd (splitOnFirst '': '' [] (versionOfLines_spec (drop (i + 1) lines)))"
        using "1.IH"(1) [OF True refl] p by (simp add: t_def del: scanLines.simps)
      finally show ?thesis
        by (simp add: d one t_def [symmetric] del: scanLines.simps)
    next
      case two: 2
      have p: "split '': '' (Some 2) t = [a, hd (splitOnFirst '': '' [] r)]"
        by (rule split_2_first_occurrence [OF _ two]) simp
      show ?thesis
      proof (cases "a = ''Version''")
        case True
        have "scanLines lines i = hd (splitOnFirst '': '' [] r)"
          by (subst scanLines.simps)
             (simp add: \<open>i < length lines\<close> p True t_def [symmetric] del: scanLines.simps)
        then show ?thesis
          by (simp add: d two True t_def [symmetric] del: scanLines.simps)
      next
        case False
        have "scanLines lines i = scanLines lines (i + 1)"
          by (subst scanLines.simps)
             (simp add: \<open>i < length lines\<close> p False t_def [symmetric] del: scanLines.simps)
        also have "\<dots> = hd (splitOnFirst '': '' [] (versionOfLines_spec (drop (i + 1) lines)))"
          using "1.IH"(2) [OF \<open>i < length lines\<close> refl] p False
          by (simp add: t_def del: scanLines.simps)
        finally show ?thesis
          by (simp add: d two False t_def [symmetric] del: scanLines.simps)
      qed
    qed
  qed
qed

subsection \<open>The installed version\<close>

text \<open>
  Claim C6, as amended. \<^verbatim>\<open>getOPAVersionString\<close> returns the empty string when the status of
  the version query is not zero. Otherwise every line of the standard output is trimmed
  and cut at every \<^verbatim>\<open>": "\<close>, and the first two pieces are kept; the result is the second
  piece of the first line that has two pieces and whose first piece is \<^verbatim>\<open>Version\<close>, and the
  empty string when there is no such line. The second piece ends at the next \<^verbatim>\<open>": "\<close>: the
  result is what the specification's wording gives, cut at its first \<^verbatim>\<open>": "\<close>, and the
  two are the same when the latter has no \<^verbatim>\<open>": "\<close> in it.
\<close>

theorem getOPAVersionString_pieces:
  "(spawn_status result \<noteq> Some 0 \<longrightarrow> getOPAVersionString result = '''') \<and>
   getOPAVersionString result =
     hd (splitOnFirst '': '' [] (GetInstalledVersionString_spec result)) \<and>
   ((\<forall>x y. GetInstalledVersionString_spec result \<noteq> x @ '': '' @ y) \<longrightarrow>
      getOPAVersionString result = GetInstalledVersionString_spec result)"
proof -
  have c1: "spawn_status result \<noteq> Some 0 \<longrightarrow> getOPAVersionString result = ''''"
    by (simp add: getOPAVersionString_def del: scanLines.simps)
  have c2: "getOPAVersionString result =
              hd (splitOnFirst '': '' [] (GetInstalledVersionString_spec result))"
    by (simp add: getOPAVersionString_def GetInstalledVersionString_spec_def split_def
          scanLines_spec del: scanLines.simps)
  have c3: "(\<forall>x y. GetInstalledVersionString_spec result \<noteq> x @ '': '' @ y) \<longrightarrow>
              getOPAVersionString result = GetInstalledVersionString_spec result"
  proof
    assume "\<forall>x y. GetInstalledVersionString_spec result \<noteq> x @ '': '' @ y"
    then have "splitOnFirst '': '' [] (GetInstalledVersionString_spec result) =
                 [[] @ GetInstalledVersionString_spec result]"
      by (intro splitOnFirst_no_infix) blast
    with c2 show "getOPAVersionString result = GetInstalledVersionString_spec result"
      by simp
  qed
  from c1 c2 c3 show ?thesis by blast
qed

theorem getOPAVersionString_pieces_witness:
  "getOPAVersionString \<lparr>spawn_status = Some 1, spawn_stdout = ''Version: 0.14.0''\<rparr> = '''' \<and>
   getOPAVersionString \<lparr>spawn_status = None, spawn_stdout = ''Version: 0.14.0''\<rparr> = '''' \<and>
   GetInstalledVersionString_spec
     \<lparr>spawn_status = Some 0,
      spawn_stdout = ''Version: 0.14.0-dev'' @ [CHR 0x0A] @ ''Build Commit: 3be55ed6''\<rparr> =
     ''0.14.0-dev'' \<and>
   getOPAVersionString
     \<lparr>spawn_status = Some 0,
      spawn_stdout = ''Version: 0.14.0-dev'' @ [CHR 0x0A] @ ''Build Commit: 3be55ed6''\<rparr> =
     ''0.14.0-dev''"
proof -
  have s: "GetInstalledVersionString_spec
     \<lparr>spawn_status = Some 0,
      spawn_stdout = ''Version: 0.14.0-dev'' @ [CHR 0x0A] @ ''Build Commit: 3be55ed6''\<rparr> =
     ''0.14.0-dev''"
    by (simp add: GetInstalledVersionString_spec_def split_def trim_def isWhiteSpace_def)
  show ?thesis
    using getOPAVersionString_pieces
            [of "\<lparr>spawn_status = Some 1, spawn_stdout = ''Version: 0.14.0''\<rparr>"]
          getOPAVersionString_pieces
            [of "\<lparr>spawn_status = None, spawn_stdout = ''Version: 0.14.0''\<rparr>"]
          getOPAVersionString_pieces
            [of "\<lparr>spawn_status = Some 0,
                  spawn_stdout = ''Version: 0.14.0-dev'' @ [CHR 0x0A] @ ''Build Commit: 3be55ed6''\<rparr>"]
          s
    by simp
qed

text \<open>The claim as stated fails on a version line with a second \<^verbatim>\<open>": "\<close>: cut at the first
  occurrence only, the second part of \<^verbatim>\<open>"Version: 0.14.0: x"\<close> is \<^verbatim>\<open>"0.14.0: x"\<close>; the
  function returns \<^verbatim>\<open>"0.14.0"\<close>.\<close>

theorem getOPAVersionString_first_occurrence_counterexample:
  "GetInstalledVersionString_spec
     \<lparr>spawn_status = Some 0, spawn_stdout = ''Version: 0.14.0: x''\<rparr> = ''0.14.0: x'' \<and>
   getOPAVersionString
     \<lparr>spawn_status = Some 0, spawn_stdout = ''Version: 0.14.0: x''\<rparr> = ''0.14.0'' \<and>
   getOPAVersionString \<lparr>spawn_status = Some 0, spawn_stdout = ''Version: 0.14.0: x''\<rparr> \<noteq>
     GetInstalledVersionString_spec
       \<lparr>spawn_status = Some 0, spawn_stdout = ''Version: 0.14.0: x''\<rparr>"
  by (simp add: GetInstalledVersionString_spec_def getOPAVersionString_def split_def trim_def
        isWhiteSpace_def)

section \<open>Properties of \<open>refToString\<close>\<close>

subsection \<open>Printing numbers and quoting strings\<close>

lemma digit_cases: "0 \<le> d \<Longrightarrow> d < 10 \<Longrightarrow>
  d = 0 \<or> d = 1 \<or> d = 2 \<or> d = 3 \<or> d = 4 \<or> d = 5 \<or> d = 6 \<or> d = 7 \<or> d = 8 \<or> d = (9::int)"
  by arith

lemma digit_char_int:
  assumes "0 \<le> d" "d < 10"
  shows "(of_char (''0123456789'' ! nat d) :: int) = 48 + d"
  using digit_cases [OF assms] by (elim disjE) simp_all

lemma digit_char_isDigit:
  assumes "0 \<le> d" "d < 10"
  shows "isDigit (''0123456789'' ! nat d)"
  using digit_cases [OF assms] by (elim disjE) (simp_all add: isDigit_def)

lemma digit_char_zero:
  assumes "0 < d" "d < 10"
  shows "''0123456789'' ! nat d \<noteq> CHR ''0''"
proof -
  from assms have "0 \<le> d" by simp
  from digit_cases [OF this assms(2)] assms(1) show ?thesis
    by (elim disjE) simp_all
qed

lemma decimalValue_snoc:
  "decimalValue (s @ [c]) = 10 * decimalValue s + (of_char c - 48)"
  by (simp add: decimalValue_def)

lemma digits_small: "n < 10 \<Longrightarrow> digits n = [''0123456789'' ! nat n]"
  by (subst digits.simps) simp

lemma digits_large:
  "\<not> n < 10 \<Longrightarrow> digits n = digits (n div 10) @ [''0123456789'' ! nat (n mod 10)]"
  by (subst digits.simps) simp

lemma decimalValue_digits: "0 \<le> n \<Longrightarrow> decimalValue (digits n) = n"
proof (induction n rule: digits.induct)
  case (1 n)
  show ?case
  proof (cases "n < 10")
    case True
    with "1.prems" show ?thesis
      by (simp add: digits_small decimalValue_def digit_char_int del: digits.simps)
  next
    case False
    with "1.prems" have "0 \<le> n div 10" by simp
    with "1.IH" [OF False] have ih: "decimalValue (digits (n div 10)) = n div 10" .
    have m: "0 \<le> n mod 10" "n mod 10 < 10" by simp_all
    show ?thesis
      by (simp add: digits_large [OF False] decimalValue_snoc ih digit_char_int [OF m]
            del: digits.simps)
  qed
qed

lemma isDigit_digits: "0 \<le> n \<Longrightarrow> list_all isDigit (digits n)"
proof (induction n rule: digits.induct)
  case (1 n)
  show ?case
  proof (cases "n < 10")
    case True
    with "1.prems" show ?thesis
      by (simp add: digits_small digit_char_isDigit del: digits.simps)
  next
    case False
    with "1.prems" have "0 \<le> n div 10" by simp
    with "1.IH" [OF False] have ih: "list_all isDigit (digits (n div 10))" .
    have m: "0 \<le> n mod 10" "n mod 10 < 10" by simp_all
    show ?thesis
      by (simp add: digits_large [OF False] ih digit_char_isDigit [OF m] del: digits.simps)
  qed
qed

lemma digits_not_Nil: "digits n \<noteq> []"
  by (cases "n < 10") (simp_all add: digits_small digits_large del: digits.simps)

lemma hd_digits: "0 < n \<Longrightarrow> hd (digits n) \<noteq> CHR ''0''"
proof (induction n rule: digits.induct)
  case (1 n)
  show ?case
  proof (cases "n < 10")
    case True
    show ?thesis
      unfolding digits_small [OF True] list.sel
      by (rule digit_char_zero [OF "1.prems" True])
  next
    case False
    with "1.prems" have "0 < n div 10" by simp
    with "1.IH" [OF False] have ih: "hd (digits (n div 10)) \<noteq> CHR ''0''" .
    then show ?thesis
      by (simp add: digits_large [OF False] digits_not_Nil del: digits.simps)
  qed
qed

lemma quoteChar_cases:
  "quoteChar c =
     (if c = CHR 0x08 then [CHR 0x5C, CHR ''b'']
      else if c = CHR 0x09 then [CHR 0x5C, CHR ''t'']
      else if c = CHR 0x0A then [CHR 0x5C, CHR ''n'']
      else if c = CHR 0x0C then [CHR 0x5C, CHR ''f'']
      else if c = CHR 0x0D then [CHR 0x5C, CHR ''r'']
      else if c = CHR 0x22 then [CHR 0x5C, CHR 0x22]
      else if c = CHR 0x5C then [CHR 0x5C, CHR 0x5C]
      else if (of_char c :: nat) < 32
        then [CHR 0x5C, CHR ''u'', CHR ''0'', CHR ''0'',
              ''0123456789abcdef'' ! ((of_char c :: nat) div 16),
              ''0123456789abcdef'' ! ((of_char c :: nat) mod 16)]
      else [c])"
proof -
  have e: "\<And>d. (of_char c :: nat) = of_char d \<longleftrightarrow> c = d" by simp
  have "(of_char c :: nat) = 8 \<longleftrightarrow> c = CHR 0x08" using e [of "CHR 0x08"] by simp
  moreover have "(of_char c :: nat) = 9 \<longleftrightarrow> c = CHR 0x09" using e [of "CHR 0x09"] by simp
  moreover have "(of_char c :: nat) = 10 \<longleftrightarrow> c = CHR 0x0A" using e [of "CHR 0x0A"] by simp
  moreover have "(of_char c :: nat) = 12 \<longleftrightarrow> c = CHR 0x0C" using e [of "CHR 0x0C"] by simp
  moreover have "(of_char c :: nat) = 13 \<longleftrightarrow> c = CHR 0x0D" using e [of "CHR 0x0D"] by simp
  moreover have "(of_char c :: nat) = 34 \<longleftrightarrow> c = CHR 0x22" using e [of "CHR 0x22"] by simp
  moreover have "(of_char c :: nat) = 92 \<longleftrightarrow> c = CHR 0x5C" using e [of "CHR 0x5C"] by simp
  ultimately show ?thesis
    by (simp add: quoteChar_def hexDigit_def Let_def)
qed

lemma finiteToString_int:
  assumes "\<bar>n\<bar> < 2 ^ 53"
  shows "finiteToString nts (of_int n) = (if n < 0 then ''-'' @ digits (- n) else digits n)"
proof -
  have "\<bar>real_of_int n\<bar> < 2 ^ 53"
    using assms by (metis of_int_abs of_int_less_numeral_power_cancel_iff)
  then show ?thesis
    by (simp add: finiteToString_def del: digits.simps)
qed

lemma finiteToString_other:
  assumes "\<not> (of_int \<lfloor>x\<rfloor> = x \<and> \<bar>x\<bar> < 2 ^ 53)"
  shows "finiteToString nts x = nts x"
  unfolding finiteToString_def by (rule if_not_P [OF assms])

lemma isDigit_set: "isDigit c \<longleftrightarrow> c \<in> set ''0123456789''"
  by (cases c) (simp add: isDigit_def; blast)

lemma isLetter_set:
  "isLetter c \<longleftrightarrow> c \<in> set ''abcdefghijklmnopqrstuvwxyzABCDEFGHIJKLMNOPQRSTUVWXYZ''"
  by (cases c) (simp add: isLetter_def; blast)

subsection \<open>The loop\<close>

text \<open>The loop from index \<open>i\<close> on, started with a string, appends what the segments from
  \<open>i\<close> on contribute, from left to right.\<close>

lemma refToString_loop_Str:
  "refToString_loop nts ref i (Str r) =
     Str (r @ concat (map (segmentText nts) (drop i ref)))"
proof (induction nts ref i "Str r" arbitrary: r rule: refToString_loop.induct)
  case (1 nts ref i)
  show ?case
  proof (cases "i < length ref")
    case False
    then show ?thesis by simp
  next
    case True
    have d: "drop i ref = ref ! i # drop (i + 1) ref"
      using True by (simp add: Cons_nth_drop_Suc)
    show ?thesis
    proof (cases "type (ref ! i) = Some ''string'' \<and>
                  regoVarPattern_test (ToString nts (value (ref ! i)))")
      case dot: True
      have "refToString_loop nts ref i (Str r) =
              refToString_loop nts ref (i + 1) (Str (r @ ''.'' @ ToString nts (value (ref ! i))))"
        by (subst refToString_loop.simps)
           (simp add: True dot plusAssign_def del: refToString_loop.simps)
      also have "\<dots> = Str ((r @ ''.'' @ ToString nts (value (ref ! i))) @
                         concat (map (segmentText nts) (drop (i + 1) ref)))"
        by (rule "1.hyps"(1) [OF True dot]) (simp add: plusAssign_def)
      finally show ?thesis
        by (simp add: d segmentText_def dot del: refToString_loop.simps)
    next
      case bracket: False
      have "refToString_loop nts ref i (Str r) =
              refToString_loop nts ref (i + 1)
                (Str (r @ ''['' @ JSON_stringify nts (value (ref ! i)) @ '']''))"
        by (subst refToString_loop.simps)
           (simp add: True if_not_P [OF bracket] plusAssign_def del: refToString_loop.simps)
      also have "\<dots> = Str ((r @ ''['' @ JSON_stringify nts (value (ref ! i)) @ '']'') @
                         concat (map (segmentText nts) (drop (i + 1) ref)))"
        by (rule "1.hyps"(2) [OF True bracket]) (simp add: plusAssign_def)
      finally show ?thesis
        by (simp add: d segmentText_def if_not_P [OF bracket] del: refToString_loop.simps)
    qed
  qed
qed

text \<open>Started with any value, the first round of the loop turns the result into a
  string.\<close>

lemma refToString_loop_any:
  assumes "i < length ref"
  shows "refToString_loop nts ref i result =
           Str (ToString nts result @ concat (map (segmentText nts) (drop i ref)))"
proof -
  have d: "drop i ref = ref ! i # drop (i + 1) ref"
    using assms by (simp add: Cons_nth_drop_Suc)
  have "refToString_loop nts ref i result =
          refToString_loop nts ref (i + 1) (Str (ToString nts result @ segmentText nts (ref ! i)))"
    by (subst refToString_loop.simps)
       (simp add: assms plusAssign_def segmentText_def del: refToString_loop.simps)
  then show ?thesis
    by (simp add: refToString_loop_Str d del: refToString_loop.simps)
qed

lemmas ref_eval =
  refToString_def plusAssign_def regoVarPattern_test_def isLetter_def isDigit_def
  quoteJSONString_def quoteChar_def finiteToString_def segmentText_def

subsection \<open>The format of a reference\<close>

lemma foldl_digits:
  "0 \<le> n \<Longrightarrow> foldl (\<lambda>m c. 10 * m + (of_char c - 48)) 0 (digits n) = n"
  using decimalValue_digits [of n] by (simp add: decimalValue_def del: digits.simps)

lemma set_digits: "0 \<le> n \<Longrightarrow> set (digits n) \<subseteq> set ''0123456789''"
  using isDigit_digits [of n] by (auto simp: list_all_iff isDigit_set simp del: digits.simps)

lemma JSON_stringify_int:
  assumes "\<bar>n\<bar> < 2 ^ 53"
  shows "JSON_stringify nts (Num (Fin (of_int n))) =
           (if n < 0 then ''-'' @ digits (- n) else digits n)"
  using finiteToString_int [OF assms, of nts] by (simp del: digits.simps)

lemma ToString_int:
  assumes "\<bar>n\<bar> < 2 ^ 53"
  shows "ToString nts (Num (Fin (of_int n))) =
           (if n < 0 then ''-'' @ digits (- n) else digits n)"
  using finiteToString_int [OF assms, of nts] by (simp del: digits.simps)

text \<open>
  Claim C5. For a reference that is not empty and whose first segment carries the string
  \<open>rootValue\<close>, \<^verbatim>\<open>refToString\<close> returns \<open>rootValue\<close>, as it is (not quoted, not escaped),
  followed by what the other segments contribute, from left to right: a segment whose
  type is \<^verbatim>\<open>string\<close> and whose value matches the identifier pattern (a letter or an
  underscore, then letters, digits or underscores) contributes a dot and the value, and
  every other segment contributes the JSON encoding of its value between brackets. A
  first value that is not a string is returned as it is when it is the only segment, and
  is converted to a string in front of the other segments. The example of the
  specification gives \<^verbatim>\<open>input.a["b-c"][0]\<close>.

  The JSON encoding is the one of \<^verbatim>\<open>JSON.stringify\<close>. A string is put between quotation
  marks, with \<^verbatim>\<open>\b\<close>, \<^verbatim>\<open>\t\<close>, \<^verbatim>\<open>\n\<close>, \<^verbatim>\<open>\f\<close>, \<^verbatim>\<open>\r\<close>, \<^verbatim>\<open>\"\<close> and \<^verbatim>\<open>\\\<close> for these seven
  characters, \<^verbatim>\<open>\u00\<close> and two lower-case hexadecimal digits for every other code unit
  below 32, and every other code unit copied. An integer below \<open>2^53\<close> in absolute value
  is printed as its decimal digits with no leading zero, after a minus sign when it is
  negative; every other finite number is printed as \<^verbatim>\<open>Number::toString\<close> prints it, which
  is the parameter \<open>nts\<close> (for \<open>2^60\<close> the brackets hold what \<open>nts\<close> gives, not the digits of
  \<open>2^60\<close>); a number that is not finite is \<^verbatim>\<open>null\<close>. The letters and digits of the
  identifier pattern are the ASCII ones.
\<close>

theorem refToString_format:
  "(value r = Str rootValue \<longrightarrow>
      refToString nts (r # segs) = Inr (Str (rootValue @ concat (map (segmentText nts) segs)))) \<and>
   (segs \<noteq> [] \<longrightarrow>
      refToString nts (r # segs) =
        Inr (Str (ToString nts (value r) @ concat (map (segmentText nts) segs)))) \<and>
   refToString nts [r] = Inr (value r) \<and>
   (type seg = Some ''string'' \<and> value seg = Str v \<and> regoVarPattern_test v \<longrightarrow>
      segmentText nts seg = ''.'' @ v) \<and>
   (\<not> (type seg = Some ''string'' \<and> regoVarPattern_test (ToString nts (value seg))) \<longrightarrow>
      segmentText nts seg = ''['' @ JSON_stringify nts (value seg) @ '']'') \<and>
   (regoVarPattern_test v \<longleftrightarrow>
      (\<exists>c cs. v = c # cs \<and> (isLetter c \<or> c = CHR ''_'') \<and>
         (\<forall>d \<in> set cs. isLetter d \<or> isDigit d \<or> d = CHR ''_''))) \<and>
   refToString nts
     [\<lparr>type = None, value = Str ''input''\<rparr>,
      \<lparr>type = Some ''string'', value = Str ''a''\<rparr>,
      \<lparr>type = Some ''string'', value = Str ''b-c''\<rparr>,
      \<lparr>type = Some ''number'', value = Num (Fin 0)\<rparr>] =
     Inr (Str (''input.a['' @ [CHR 0x22] @ ''b-c'' @ [CHR 0x22] @ ''][0]'')) \<and>
   (type seg = Some ''string'' \<and> regoVarPattern_test (ToString nts (value seg)) \<longrightarrow>
      segmentText nts seg = ''.'' @ ToString nts (value seg)) \<and>
   (isLetter ch \<longleftrightarrow> ch \<in> set ''abcdefghijklmnopqrstuvwxyzABCDEFGHIJKLMNOPQRSTUVWXYZ'') \<and>
   (isDigit ch \<longleftrightarrow> ch \<in> set ''0123456789'') \<and>
   JSON_stringify nts (Str s) = [CHR 0x22] @ concat (map quoteChar s) @ [CHR 0x22] \<and>
   quoteChar ch =
     (if ch = CHR 0x08 then [CHR 0x5C, CHR ''b'']
      else if ch = CHR 0x09 then [CHR 0x5C, CHR ''t'']
      else if ch = CHR 0x0A then [CHR 0x5C, CHR ''n'']
      else if ch = CHR 0x0C then [CHR 0x5C, CHR ''f'']
      else if ch = CHR 0x0D then [CHR 0x5C, CHR ''r'']
      else if ch = CHR 0x22 then [CHR 0x5C, CHR 0x22]
      else if ch = CHR 0x5C then [CHR 0x5C, CHR 0x5C]
      else if (of_char ch :: nat) < 32
        then [CHR 0x5C, CHR ''u'', CHR ''0'', CHR ''0'',
              ''0123456789abcdef'' ! ((of_char ch :: nat) div 16),
              ''0123456789abcdef'' ! ((of_char ch :: nat) mod 16)]
      else [ch]) \<and>
   (\<bar>n\<bar> < 2 ^ 53 \<longrightarrow>
      JSON_stringify nts (Num (Fin (of_int n))) =
        (if n < 0 then ''-'' @ digits (- n) else digits n) \<and>
      ToString nts (Num (Fin (of_int n))) =
        (if n < 0 then ''-'' @ digits (- n) else digits n)) \<and>
   (0 \<le> k \<longrightarrow>
      foldl (\<lambda>m c. 10 * m + (of_char c - 48)) 0 (digits k) = k \<and>
      set (digits k) \<subseteq> set ''0123456789'' \<and>
      digits k \<noteq> [] \<and>
      (0 < k \<longrightarrow> hd (digits k) \<noteq> CHR ''0'')) \<and>
   digits 0 = ''0'' \<and>
   (\<not> (of_int \<lfloor>x\<rfloor> = x \<and> \<bar>x\<bar> < 2 ^ 53) \<longrightarrow>
      JSON_stringify nts (Num (Fin x)) = nts x \<and> ToString nts (Num (Fin x)) = nts x) \<and>
   JSON_stringify nts (Num (Fin (2 ^ 60))) = nts (2 ^ 60) \<and>
   JSON_stringify nts (Num NaN) = ''null'' \<and>
   JSON_stringify nts (Num PosInf) = ''null'' \<and>
   JSON_stringify nts (Num NegInf) = ''null'' \<and>
   JSON_stringify nts Null = ''null'' \<and>
   JSON_stringify nts (Bool True) = ''true'' \<and>
   JSON_stringify nts (Bool False) = ''false'' \<and>
   JSON_stringify nts (Arr []) = ''[]'' \<and>
   JSON_stringify nts (Arr [Num (Fin 1), Str ''a'', Null, Arr [Bool True]]) =
     ''[1,'' @ [CHR 0x22] @ ''a'' @ [CHR 0x22] @ '',null,[true]]'' \<and>
   JSON_stringify nts (Obj []) = ''{}'' \<and>
   JSON_stringify nts (Obj [(''a'', Num (Fin 1)), (''b'', Str ''c'')]) =
     ''{'' @ [CHR 0x22] @ ''a'' @ [CHR 0x22] @ '':1,'' @
     [CHR 0x22] @ ''b'' @ [CHR 0x22] @ '':'' @ [CHR 0x22] @ ''c'' @ [CHR 0x22] @ ''}'' \<and>
   ToString nts (Str s) = s \<and>
   ToString nts Null = ''null'' \<and>
   ToString nts (Bool True) = ''true'' \<and>
   ToString nts (Bool False) = ''false'' \<and>
   ToString nts (Num NaN) = ''NaN'' \<and>
   ToString nts (Num PosInf) = ''Infinity'' \<and>
   ToString nts (Num NegInf) = ''-Infinity'' \<and>
   ToString nts (Arr [Num (Fin 1), Null, Str ''a'', Arr [Bool True, Bool False]]) =
     ''1,,a,true,false'' \<and>
   ToString nts (Obj kvs) = ''[object Object]''"
proof -
  have c1: "value r = Str rootValue \<longrightarrow>
      refToString nts (r # segs) = Inr (Str (rootValue @ concat (map (segmentText nts) segs)))"
    by (simp add: refToString_def refToString_loop_Str del: refToString_loop.simps)
  have c1a: "segs \<noteq> [] \<longrightarrow>
      refToString nts (r # segs) =
        Inr (Str (ToString nts (value r) @ concat (map (segmentText nts) segs)))"
    by (simp add: refToString_def refToString_loop_any del: refToString_loop.simps)
  have c1b: "refToString nts [r] = Inr (value r)"
    by (simp add: refToString_def)
  have c2:"type seg = Some ''string'' \<and> value seg = Str v \<and> regoVarPattern_test v \<longrightarrow>
      segmentText nts seg = ''.'' @ v"
    by (simp add: segmentText_def)
  have c3: "\<not> (type seg = Some ''string'' \<and> regoVarPattern_test (ToString nts (value seg))) \<longrightarrow>
      segmentText nts seg = ''['' @ JSON_stringify nts (value seg) @ '']''"
    by (simp add: segmentText_def)
  have c4: "regoVarPattern_test v \<longleftrightarrow>
      (\<exists>c cs. v = c # cs \<and> (isLetter c \<or> c = CHR ''_'') \<and>
         (\<forall>d \<in> set cs. isLetter d \<or> isDigit d \<or> d = CHR ''_''))"
    by (cases v) (auto simp: regoVarPattern_test_def list_all_iff)
  have c5: "refToString nts
     [\<lparr>type = None, value = Str ''input''\<rparr>,
      \<lparr>type = Some ''string'', value = Str ''a''\<rparr>,
      \<lparr>type = Some ''string'', value = Str ''b-c''\<rparr>,
      \<lparr>type = Some ''number'', value = Num (Fin 0)\<rparr>] =
     Inr (Str (''input.a['' @ [CHR 0x22] @ ''b-c'' @ [CHR 0x22] @ ''][0]''))"
    by (simp add: ref_eval)
  have c6: "type seg = Some ''string'' \<and> regoVarPattern_test (ToString nts (value seg)) \<longrightarrow>
      segmentText nts seg = ''.'' @ ToString nts (value seg)"
    by (simp add: segmentText_def)
  have p1: "isLetter ch \<longleftrightarrow> ch \<in> set ''abcdefghijklmnopqrstuvwxyzABCDEFGHIJKLMNOPQRSTUVWXYZ''"
    by (rule isLetter_set)
  have p2: "isDigit ch \<longleftrightarrow> ch \<in> set ''0123456789''"
    by (rule isDigit_set)
  have p3: "JSON_stringify nts (Str s) = [CHR 0x22] @ concat (map quoteChar s) @ [CHR 0x22]"
    by (simp add: quoteJSONString_def)
  note p4 = quoteChar_cases [of ch]
  have p5: "\<bar>n\<bar> < 2 ^ 53 \<longrightarrow>
      JSON_stringify nts (Num (Fin (of_int n))) =
        (if n < 0 then ''-'' @ digits (- n) else digits n) \<and>
      ToString nts (Num (Fin (of_int n))) =
        (if n < 0 then ''-'' @ digits (- n) else digits n)"
    using JSON_stringify_int [of n nts] ToString_int [of n nts] by blast
  have p6: "0 \<le> k \<longrightarrow>
      foldl (\<lambda>m c. 10 * m + (of_char c - 48)) 0 (digits k) = k \<and>
      set (digits k) \<subseteq> set ''0123456789'' \<and>
      digits k \<noteq> [] \<and>
      (0 < k \<longrightarrow> hd (digits k) \<noteq> CHR ''0'')"
    using foldl_digits [of k] set_digits [of k] digits_not_Nil [of k] hd_digits [of k] by blast
  have p7: "digits 0 = ''0''"
    by (simp add: digits_small)
  have p8: "\<not> (of_int \<lfloor>x\<rfloor> = x \<and> \<bar>x\<bar> < 2 ^ 53) \<longrightarrow>
      JSON_stringify nts (Num (Fin x)) = nts x \<and> ToString nts (Num (Fin x)) = nts x"
    using finiteToString_other [of x nts] by simp
  have p9: "JSON_stringify nts (Num (Fin (2 ^ 60))) = nts (2 ^ 60)"
    by (simp add: finiteToString_def)
  have p10: "JSON_stringify nts (Num NaN) = ''null''"
    "JSON_stringify nts (Num PosInf) = ''null''"
    "JSON_stringify nts (Num NegInf) = ''null''"
    "JSON_stringify nts Null = ''null''"
    "JSON_stringify nts (Bool True) = ''true''"
    "JSON_stringify nts (Bool False) = ''false''"
    "JSON_stringify nts (Arr []) = ''[]''"
    "JSON_stringify nts (Obj []) = ''{}''"
    by simp_all
  have p11: "JSON_stringify nts (Arr [Num (Fin 1), Str ''a'', Null, Arr [Bool True]]) =
     ''[1,'' @ [CHR 0x22] @ ''a'' @ [CHR 0x22] @ '',null,[true]]''"
    by (simp add: ref_eval)
  have p12: "JSON_stringify nts (Obj [(''a'', Num (Fin 1)), (''b'', Str ''c'')]) =
     ''{'' @ [CHR 0x22] @ ''a'' @ [CHR 0x22] @ '':1,'' @
     [CHR 0x22] @ ''b'' @ [CHR 0x22] @ '':'' @ [CHR 0x22] @ ''c'' @ [CHR 0x22] @ ''}''"
    by (simp add: ref_eval)
  have p13: "ToString nts (Str s) = s"
    "ToString nts Null = ''null''"
    "ToString nts (Bool True) = ''true''"
    "ToString nts (Bool False) = ''false''"
    "ToString nts (Num NaN) = ''NaN''"
    "ToString nts (Num PosInf) = ''Infinity''"
    "ToString nts (Num NegInf) = ''-Infinity''"
    "ToString nts (Obj kvs) = ''[object Object]''"
    by simp_all
  have p14: "ToString nts (Arr [Num (Fin 1), Null, Str ''a'', Arr [Bool True, Bool False]]) =
     ''1,,a,true,false''"
    by (simp add: ref_eval)
  show ?thesis
    by (intro conjI)
       (rule c1 c1a c1b c2 c3 c4 c5 c6 p1 p2 p3 p4 p5 p6 p7 p8 p9 p10 p11 p12 p13 p14)+
qed

theorem refToString_format_witness:
  "value \<lparr>type = Some ''var'', value = Str ''data''\<rparr> = Str ''data'' \<and>
   refToString noNts
     [\<lparr>type = Some ''var'', value = Str ''data''\<rparr>,
      \<lparr>type = Some ''string'', value = Str ''foo_1''\<rparr>,
      \<lparr>type = Some ''string'', value = Str ''1x''\<rparr>,
      \<lparr>type = Some ''boolean'', value = Bool True\<rparr>] =
     Inr (Str (''data.foo_1['' @ [CHR 0x22] @ ''1x'' @ [CHR 0x22] @ ''][true]'')) \<and>
   \<bar>- 42\<bar> < (2 :: int) ^ 53 \<and>
   JSON_stringify noNts (Num (Fin (- 42))) = ''-42'' \<and>
   \<not> (of_int \<lfloor>2 ^ 60 :: real\<rfloor> = (2 ^ 60 :: real) \<and> \<bar>2 ^ 60 :: real\<bar> < 2 ^ 53) \<and>
   refToString (\<lambda>x. if x = 2 ^ 60 then ''1152921504606847000'' else [])
     [\<lparr>type = None, value = Str ''x''\<rparr>,
      \<lparr>type = Some ''number'', value = Num (Fin (2 ^ 60))\<rparr>] =
     Inr (Str ''x[1152921504606847000]'')"
  using refToString_format
          [where r = "\<lparr>type = Some ''var'', value = Str ''data''\<rparr>"
             and rootValue = "''data''" and nts = noNts
             and segs = "[\<lparr>type = Some ''string'', value = Str ''foo_1''\<rparr>,
                          \<lparr>type = Some ''string'', value = Str ''1x''\<rparr>,
                          \<lparr>type = Some ''boolean'', value = Bool True\<rparr>]"
             and seg = "\<lparr>type = Some ''string'', value = Str ''foo_1''\<rparr>"
             and v = "''foo_1''" and ch = "CHR ''a''" and s = "''1x''" and n = "- 42"
             and k = 42 and x = "2 ^ 60" and kvs = "[]"]
        refToString_format
          [where r = "\<lparr>type = None, value = Str ''x''\<rparr>"
             and rootValue = "''x''"
             and nts = "\<lambda>x. if x = 2 ^ 60 then ''1152921504606847000'' else []"
             and segs = "[\<lparr>type = Some ''number'', value = Num (Fin (2 ^ 60))\<rparr>]"
             and seg = "\<lparr>type = Some ''number'', value = Num (Fin (2 ^ 60))\<rparr>"
             and v = "''x''" and ch = "CHR ''a''" and s = "''x''" and n = 0
             and k = 0 and x = "2 ^ 60" and kvs = "[]"]
  by (simp add: ref_eval)

subsection \<open>The empty reference\<close>

text \<open>
  Claim C9. \<^verbatim>\<open>refToString\<close> is not total: on the empty array it returns no string and
  rejects nothing in a documented way. It fails with the \<^verbatim>\<open>TypeError\<close> of reading the
  value of a first segment that is not there; in the total model this branch is the
  error. On every other array it returns a value.
\<close>

theorem refToString_empty:
  "refToString nts [] = Inl TypeError \<and>
   (ref \<noteq> [] \<longrightarrow> (\<exists>v. refToString nts ref = Inr v))"
  by (simp add: refToString_def del: refToString_loop.simps)

theorem refToString_empty_witness:
  "refToString noNts [] = Inl TypeError \<and>
   [\<lparr>type = None, value = Str ''input''\<rparr>] \<noteq> [] \<and>
   refToString noNts [\<lparr>type = None, value = Str ''input''\<rparr>] = Inr (Str ''input'')"
  using refToString_empty [of noNts "[\<lparr>type = None, value = Str ''input''\<rparr>]"]
  by (simp add: refToString_def)

section \<open>Properties of the process calls\<close>

lemma runWithStatus_spawned:
  assumes "fst (runWithStatus e path args stdin cb) = [Spawn p args, StdinWrite stdin, StdinEnd]"
  shows "snd (runWithStatus e path args stdin cb) =
           map_option (\<lambda>(code, err, out). cb code err out) (child e p args stdin)"
  using assms
  by (auto simp: runWithStatus_def Let_def split: if_splits option.splits)

subsection \<open>Success and failure of \<open>run\<close>\<close>

text \<open>
  What the callback of \<^verbatim>\<open>run\<close> receives. Let a call of \<^verbatim>\<open>run\<close> spawn the binary \<open>p\<close>, and
  let the child exit with \<open>code\<close>, having written \<open>err\<close> to its standard error and \<open>out\<close>
  to its standard output. When \<open>code\<close> is zero, \<open>out\<close> is decoded as JSON and the callback
  gets the empty error message and the document; when the decoding fails its error is
  thrown, and the callback is not called with an empty or partial result. When \<open>code\<close>
  is not zero the callback gets as error message \<open>out\<close> if \<open>out\<close> is not empty, and \<open>err\<close>
  otherwise (the standard output goes first also when both are non-empty), with the
  empty string as result.
\<close>

lemma run_classification:
  assumes "fst (run e JSON_parse path args stdin cb) = [Spawn p args, StdinWrite stdin, StdinEnd]"
      and "child e p args stdin = Some (code, err, out)"
  shows "(code = Some 0 \<and> JSON_parse out = Inr doc \<longrightarrow>
            snd (run e JSON_parse path args stdin cb) = Some (cb '''' doc)) \<and>
         (code = Some 0 \<and> JSON_parse out = Inl failure \<longrightarrow>
            snd (run e JSON_parse path args stdin cb) = Some (Inl failure)) \<and>
         (code \<noteq> Some 0 \<and> out \<noteq> '''' \<longrightarrow>
            snd (run e JSON_parse path args stdin cb) = Some (cb out (Str ''''))) \<and>
         (code \<noteq> Some 0 \<and> out = '''' \<longrightarrow>
            snd (run e JSON_parse path args stdin cb) = Some (cb err (Str '''')))"
proof -
  have s: "snd (run e JSON_parse path args stdin cb) =
             Some (run_callback JSON_parse cb code err out)"
    using runWithStatus_spawned [of e path args stdin "run_callback JSON_parse cb" p] assms
    by (simp add: run_def)
  show ?thesis
    unfolding s by (simp add: run_callback_def)
qed

text \<open>Read as \<^verbatim>\<open>parse\<close> reads the two arguments, the call is a success with the document
  when the child exits with zero, and a failure with the standard output, or else the
  standard error, as message when the child exits with another code and the message is
  not empty.\<close>

lemma run_invocation:
  assumes "fst (run e JSON_parse path args stdin (\<lambda>error result. Inr (invocationOf error result))) =
             [Spawn p args, StdinWrite stdin, StdinEnd]"
      and "child e p args stdin = Some (code, err, out)"
  shows "(code = Some 0 \<and> JSON_parse out = Inr doc \<longrightarrow>
            snd (run e JSON_parse path args stdin (\<lambda>error result. Inr (invocationOf error result))) =
              Some (Inr (Success doc))) \<and>
         (code = Some 0 \<and> JSON_parse out = Inl failure \<longrightarrow>
            snd (run e JSON_parse path args stdin (\<lambda>error result. Inr (invocationOf error result))) =
              Some (Inl failure)) \<and>
         (code \<noteq> Some 0 \<and> out \<noteq> '''' \<longrightarrow>
            snd (run e JSON_parse path args stdin (\<lambda>error result. Inr (invocationOf error result))) =
              Some (Inr (Failure out))) \<and>
         (code \<noteq> Some 0 \<and> out = '''' \<and> err \<noteq> '''' \<longrightarrow>
            snd (run e JSON_parse path args stdin (\<lambda>error result. Inr (invocationOf error result))) =
              Some (Inr (Failure err)))"
  using run_classification [OF assms, of doc failure]
  by (simp add: invocationOf_def)

text \<open>A surrounding for closed examples: \<^verbatim>\<open>opa\<close> is on the search path and no override is
  set; the child exits with the code that its standard input names, after writing its
  first argument to the standard output and its second to the standard error.\<close>

lemma run_structured_error:
  "run \<lparr>opaPath = None, commandExistsSync = (\<lambda>c. c = ''opa''), existsSync = (\<lambda>f. False),
        child = (\<lambda>p args stdin. Some (if stdin = ''0'' then Some 0 else Some 1, args ! 1, args ! 0))\<rparr>
     JSON_parse ''opa'' [''structured error'', ''boom''] ''1''
     (\<lambda>error result. Inr (invocationOf error result)) =
     ([Spawn ''opa'' [''structured error'', ''boom''], StdinWrite ''1'', StdinEnd],
      Some (Inr (Failure ''structured error'')))"
  by (simp add: run_def runWithStatus_def run_callback_def invocationOf_def)

text \<open>
  Claim C4. The claim holds of \<^verbatim>\<open>run\<close> wherever the child exits with zero, and wherever it
  exits with another code and has written something: the callback then gets the
  standard output, or else the standard error, as the message of the failure. It does
  not hold where the child exits with a code other than zero and has written nothing to
  either stream. A child that exits with \<open>1\<close>, or is killed by a signal (the code \<^verbatim>\<open>null\<close>),
  with both streams empty makes \<^verbatim>\<open>run\<close> call its callback with the empty message and the
  empty string as result. A caller tells a failure from a success by the message not
  being empty (\<^verbatim>\<open>error !== ''\<close> in \<^verbatim>\<open>parse\<close>), so this call is a success with the value
  \<^verbatim>\<open>''\<close> and no failure: it is the very call that a child makes which exits with zero
  after printing the JSON text \<^verbatim>\<open>""\<close>, and \<^verbatim>\<open>parse\<close> does not call \<^verbatim>\<open>onerror\<close> but goes on
  to read the package and the imports of the empty string.
\<close>

theorem run_failure_without_output:
  "run \<lparr>opaPath = None, commandExistsSync = (\<lambda>c. c = ''opa''), existsSync = (\<lambda>f. False),
        child = (\<lambda>p args stdin. Some (Some 1, [], []))\<rparr>
     JSON_parse ''opa'' args stdin (\<lambda>error result. Inr (invocationOf error result)) =
     ([Spawn ''opa'' args, StdinWrite stdin, StdinEnd], Some (Inr (Success (Str [])))) \<and>
   run \<lparr>opaPath = None, commandExistsSync = (\<lambda>c. c = ''opa''), existsSync = (\<lambda>f. False),
        child = (\<lambda>p args stdin. Some (None, [], []))\<rparr>
     JSON_parse ''opa'' args stdin (\<lambda>error result. Inr (invocationOf error result)) =
     ([Spawn ''opa'' args, StdinWrite stdin, StdinEnd], Some (Inr (Success (Str [])))) \<and>
   run \<lparr>opaPath = None, commandExistsSync = (\<lambda>c. c = ''opa''), existsSync = (\<lambda>f. False),
        child = (\<lambda>p args stdin. Some (Some 1, [], []))\<rparr>
     JSON_parse ''opa'' args stdin cb =
     ([Spawn ''opa'' args, StdinWrite stdin, StdinEnd], Some (cb [] (Str []))) \<and>
   run \<lparr>opaPath = None, commandExistsSync = (\<lambda>c. c = ''opa''), existsSync = (\<lambda>f. False),
        child = (\<lambda>p args stdin. Some (Some 0, [], [CHR 0x22, CHR 0x22]))\<rparr>
     (\<lambda>s. if s = [CHR 0x22, CHR 0x22] then Inr (Str []) else Inl SyntaxError)
     ''opa'' args stdin cb =
     ([Spawn ''opa'' args, StdinWrite stdin, StdinEnd], Some (cb [] (Str []))) \<and>
   parse \<lparr>opaPath = None, commandExistsSync = (\<lambda>c. c = ''opa''), existsSync = (\<lambda>f. False),
          child = (\<lambda>p args stdin. Some (Some 1, [], []))\<rparr>
     JSON_parse (\<lambda>result. Inr result) (\<lambda>result. Inr [result]) ''opa'' file
     (\<lambda>pkg imports. Inr (Inr (pkg, imports))) (\<lambda>output. Inr (Inl output)) =
     ([Spawn ''opa'' [''parse'', file, ''--format'', ''json''], StdinWrite [], StdinEnd],
      Some (Inr (Inr (Str [], [Str []])))) \<and>
   invocationOf [] (Str []) = Success (Str []) \<and>
   invocationOf [] (Str []) \<noteq> Failure []"
  by (simp add: parse_def parse_callback_def run_def runWithStatus_def run_callback_def
        invocationOf_def)

subsection \<open>Finding the binary\<close>

text \<open>
  Claim C8. \<^verbatim>\<open>runWithStatus\<close> can use the binary when the command is found on the search
  path or the configured path is set and exists. When the configured path is set and
  exists it is spawned, also when the command is on the search path; when only the
  command is on the search path the command is spawned. When neither holds, the install
  prompt is triggered, nothing is spawned, and the callback is never called: the call
  returns nothing and throws nothing.
\<close>

theorem runWithStatus_locate:
  "(\<not> commandExistsSync e path \<and> (\<forall>q. opaPath e = Some q \<longrightarrow> \<not> existsSync e q) \<longrightarrow>
      runWithStatus e path args stdin cb = ([PromptForInstall], None)) \<and>
   (opaPath e = Some p \<and> existsSync e p \<longrightarrow>
      runWithStatus e path args stdin cb =
        ([Spawn p args, StdinWrite stdin, StdinEnd],
         map_option (\<lambda>(code, err, out). cb code err out) (child e p args stdin))) \<and>
   (commandExistsSync e path \<and> (\<forall>q. opaPath e = Some q \<longrightarrow> \<not> existsSync e q) \<longrightarrow>
      runWithStatus e path args stdin cb =
        ([Spawn path args, StdinWrite stdin, StdinEnd],
         map_option (\<lambda>(code, err, out). cb code err out) (child e path args stdin)))"
  by (auto simp: runWithStatus_def Let_def split: option.splits)

theorem runWithStatus_locate_witness:
  "runWithStatus
     \<lparr>opaPath = Some ''/missing/opa'', commandExistsSync = (\<lambda>c. False),
      existsSync = (\<lambda>f. f = ''/opt/opa''), child = (\<lambda>p args stdin. Some (Some 0, '''', p))\<rparr>
     ''opa'' [''version''] '''' (\<lambda>code err out. Inr out) =
     ([PromptForInstall], None :: (js_error + string) option) \<and>
   runWithStatus
     \<lparr>opaPath = Some ''/opt/opa'', commandExistsSync = (\<lambda>c. True),
      existsSync = (\<lambda>f. f = ''/opt/opa''), child = (\<lambda>p args stdin. Some (Some 0, '''', p))\<rparr>
     ''opa'' [''version''] '''' (\<lambda>code err out. Inr out) =
     ([Spawn ''/opt/opa'' [''version''], StdinWrite '''', StdinEnd],
      Some (Inr ''/opt/opa'' :: js_error + string)) \<and>
   runWithStatus
     \<lparr>opaPath = Some ''/missing/opa'', commandExistsSync = (\<lambda>c. True),
      existsSync = (\<lambda>f. f = ''/opt/opa''), child = (\<lambda>p args stdin. Some (Some 0, '''', p))\<rparr>
     ''opa'' [''version''] '''' (\<lambda>code err out. Inr out) =
     ([Spawn ''opa'' [''version''], StdinWrite '''', StdinEnd],
      Some (Inr ''opa'' :: js_error + string))"
  using runWithStatus_locate
          [of "\<lparr>opaPath = Some ''/missing/opa'', commandExistsSync = (\<lambda>c. False),
                existsSync = (\<lambda>f. f = ''/opt/opa''),
                child = (\<lambda>p args stdin. Some (Some 0, '''', p))\<rparr>"
              "''opa''" "[''version'']" "''''"
              "\<lambda>code err out. Inr out :: js_error + string" "''/opt/opa''"]
        runWithStatus_locate
          [of "\<lparr>opaPath = Some ''/opt/opa'', commandExistsSync = (\<lambda>c. True),
                existsSync = (\<lambda>f. f = ''/opt/opa''),
                child = (\<lambda>p args stdin. Some (Some 0, '''', p))\<rparr>"
              "''opa''" "[''version'']" "''''"
              "\<lambda>code err out. Inr out :: js_error + string" "''/opt/opa''"]
        runWithStatus_locate
          [of "\<lparr>opaPath = Some ''/missing/opa'', commandExistsSync = (\<lambda>c. True),
                existsSync = (\<lambda>f. f = ''/opt/opa''),
                child = (\<lambda>p args stdin. Some (Some 0, '''', p))\<rparr>"
              "''opa''" "[''version'']" "''''"
              "\<lambda>code err out. Inr out :: js_error + string" "''/opt/opa''"]
  by simp

end
